theory Spec2Isabelle
  imports Main "HOL-Library.Product_Lexorder"
begin

section \<open>Time values and the timezone library\<close>

text \<open>
  The backend computes with moment-timezone objects. A moment is an absolute instant
  together with the zone its wall-clock fields are read in. Instants are milliseconds
  since the Unix epoch; a civil (wall-clock) datetime is the number of milliseconds since
  1970-01-01T00:00:00 on the wall clock of some zone. A calendar date is its day number
  since 1970-01-01, a TIME column value is a number of seconds since midnight.

  The zone database is not part of the repository; it is a parameter of every
  operation: \<open>parse_in z c\<close> is the instant that \<open>moment.tz(c, z)\<close> yields for a civil
  datetime \<open>c\<close>, and \<open>civil_in z t\<close> is the wall-clock reading of instant \<open>t\<close> in \<open>z\<close>.
\<close>

type_synonym instant = int
type_synonym civil = int
type_synonym zone = string

record tzlib =
  parse_in :: "zone \<Rightarrow> civil \<Rightarrow> instant"
  civil_in :: "zone \<Rightarrow> instant \<Rightarrow> civil"

record moment =
  mt :: instant
  mz :: zone

definition day_ms :: int where
  "day_ms = 86400000"

definition moment_tz :: "tzlib \<Rightarrow> civil \<Rightarrow> zone \<Rightarrow> moment" where
  "moment_tz tz c z = \<lparr>mt = parse_in tz z c, mz = z\<rparr>"

text \<open>\<open>m.clone().add(n, 'minutes')\<close>: minutes are added to the instant, the zone stays.\<close>

definition add_minutes :: "moment \<Rightarrow> int \<Rightarrow> moment" where
  "add_minutes m n = m\<lparr>mt := mt m + n * 60000\<rparr>"

text \<open>\<open>m.utc()\<close>: the same instant, read in UTC.\<close>

definition utc :: "moment \<Rightarrow> moment" where
  "utc m = m\<lparr>mz := ''UTC''\<rparr>"

text \<open>
  \<open>m.format('YYYY-MM-DDTHH:mm:ss')\<close>: the wall clock of the moment's own zone, cut to
  whole seconds. The printed string is represented by that number of civil seconds.
\<close>

definition format_moment :: "tzlib \<Rightarrow> moment \<Rightarrow> int" where
  "format_moment tz m = civil_in tz (mz m) (mt m) div 1000"

text \<open>\<open>m.day()\<close>: day of week of the wall-clock date, 0 = Sunday (1970-01-01 was a Thursday).\<close>

definition day :: "tzlib \<Rightarrow> moment \<Rightarrow> int" where
  "day tz m = (civil_in tz (mz m) (mt m) div day_ms + 4) mod 7"

definition startOf_day :: "tzlib \<Rightarrow> moment \<Rightarrow> moment" where
  "startOf_day tz m =
     moment_tz tz (civil_in tz (mz m) (mt m) div day_ms * day_ms) (mz m)"

definition endOf_day :: "tzlib \<Rightarrow> moment \<Rightarrow> moment" where
  "endOf_day tz m =
     moment_tz tz (civil_in tz (mz m) (mt m) div day_ms * day_ms + (day_ms - 1)) (mz m)"

text \<open>
  A zone database of fixed offsets, used to run the operations on concrete inputs:
  Asia/Kolkata is UTC+05:30 all year, every other name reads as UTC.
\<close>

definition zone_offset :: "zone \<Rightarrow> int" where
  "zone_offset z = (if z = ''Asia/Kolkata'' then 19800000 else 0)"

definition fixed_tz :: tzlib where
  "fixed_tz = \<lparr>parse_in = (\<lambda>z c. c - zone_offset z), civil_in = (\<lambda>z t. t + zone_offset z)\<rparr>"

section \<open>Stored records (schema.sql)\<close>

datatype meeting_status = Scheduled | Cancelled | Completed

record event_type =
  et_id :: int
  et_name :: string
  et_slug :: string
  duration_minutes :: int

record availability_row =
  av_event_type_id :: int
  day_of_week :: int
  start_time :: int
  end_time :: int
  timezone :: zone

record override_row =
  ov_event_type_id :: int
  override_date :: int
  is_available :: bool
  ov_start_time :: "int option"
  ov_end_time :: "int option"

record meeting =
  m_id :: int
  m_event_type_id :: int
  invitee_name :: string
  invitee_email :: string
  m_start_time :: instant
  m_end_time :: instant
  m_timezone :: zone
  status :: meeting_status

record database =
  event_types :: "event_type list"
  availability :: "availability_row list"
  availability_overrides :: "override_row list"
  meetings :: "meeting list"
  next_meeting_id :: int

text \<open>
  What a handler answers is either a failure, named after the HTTP status the source
  sends (400, 404, 409, 500), or the body of a 200/201 answer. Storage enforces the
  NOT NULL and UNIQUE constraints of schema.sql and, for the availability table, the
  column types; a meeting row is taken to fit its columns, and lost connections are
  outside the model.
\<close>

datatype failure = BadRequest | NotFound | Conflict | ServerError

type_synonym 'a reply = "failure + 'a"

text \<open>A request field \<open>x\<close> satisfies \<open>!x\<close> when it is absent or the empty string.\<close>

definition missing :: "string option \<Rightarrow> bool" where
  "missing x = (case x of None \<Rightarrow> True | Some s \<Rightarrow> s = [])"

section \<open>routes/booking.js: POST /api/booking\<close>

text \<open>
  \<open>startTime\<close> arrives as an ISO string. Without an offset it is a civil datetime that
  \<open>moment.tz(startTime, timezone)\<close> reads in the requested zone; with an offset it
  already names an instant, which the requested zone only displays.
\<close>

datatype time_input = CivilTime civil | OffsetTime instant

fun moment_tz_input :: "tzlib \<Rightarrow> time_input \<Rightarrow> zone \<Rightarrow> moment" where
  "moment_tz_input tz (CivilTime c) z = moment_tz tz c z"
| "moment_tz_input tz (OffsetTime t) z = \<lparr>mt = t, mz = z\<rparr>"

record booking_request =
  eventSlug :: "string option"
  inviteeName :: "string option"
  inviteeEmail :: "string option"
  startTime :: "time_input option"
  req_timezone :: "string option"

text \<open>\<open>SELECT * FROM event_types WHERE slug = ?\<close>, first row.\<close>

definition event_type_by_slug :: "database \<Rightarrow> string \<Rightarrow> event_type option" where
  "event_type_by_slug db s = find (\<lambda>e. et_slug e = s) (event_types db)"

text \<open>
  The double-booking query: scheduled meetings of the event type with
  \<open>start_time < endTimeUTC AND end_time > startTimeUTC\<close>.
\<close>

definition conflictingBookings :: "database \<Rightarrow> int \<Rightarrow> instant \<Rightarrow> instant \<Rightarrow> meeting list" where
  "conflictingBookings db etid startTimeUTC endTimeUTC =
     filter (\<lambda>m. m_event_type_id m = etid \<and> status m = Scheduled
                 \<and> m_start_time m < endTimeUTC \<and> m_end_time m > startTimeUTC)
            (meetings db)"

text \<open>The local variables of the handler that live across its \<open>await\<close> points.\<close>

record booking_vars =
  bv_event_type_id :: int
  bv_inviteeName :: string
  bv_inviteeEmail :: string
  startTimeUTC :: instant
  endTimeUTC :: instant
  bv_timezone :: zone

text \<open>
  First segment of the handler: required fields, event type lookup, start and end of
  the requested meeting as UTC instants.
\<close>

definition booking_plan :: "tzlib \<Rightarrow> database \<Rightarrow> booking_request \<Rightarrow> failure + booking_vars" where
  "booking_plan tz db req =
     (if missing (eventSlug req) \<or> missing (inviteeName req) \<or> missing (inviteeEmail req)
         \<or> startTime req = None \<or> missing (req_timezone req)
      then Inl BadRequest
      else case event_type_by_slug db (the (eventSlug req)) of
        None \<Rightarrow> Inl NotFound
      | Some eventType \<Rightarrow>
          let startMoment = moment_tz_input tz (the (startTime req)) (the (req_timezone req));
              endMoment = add_minutes startMoment (duration_minutes eventType)
          in Inr \<lparr>bv_event_type_id = et_id eventType,
                  bv_inviteeName = the (inviteeName req),
                  bv_inviteeEmail = the (inviteeEmail req),
                  startTimeUTC = mt (utc startMoment),
                  endTimeUTC = mt (utc endMoment),
                  bv_timezone = the (req_timezone req)\<rparr>)"

text \<open>Second segment: the conflict query found a row.\<close>

definition booking_conflict :: "database \<Rightarrow> booking_vars \<Rightarrow> bool" where
  "booking_conflict db v =
     (conflictingBookings db (bv_event_type_id v) (startTimeUTC v) (endTimeUTC v) \<noteq> [])"

text \<open>
  Third segment: the INSERT, a new row with the next AUTO_INCREMENT id and status
  'scheduled', returned as the created meeting.
\<close>

definition booking_insert :: "database \<Rightarrow> booking_vars \<Rightarrow> meeting \<times> database" where
  "booking_insert db v =
     (let row = \<lparr>m_id = next_meeting_id db, m_event_type_id = bv_event_type_id v,
                 invitee_name = bv_inviteeName v, invitee_email = bv_inviteeEmail v,
                 m_start_time = startTimeUTC v, m_end_time = endTimeUTC v,
                 m_timezone = bv_timezone v, status = Scheduled\<rparr>
      in (row, db\<lparr>meetings := meetings db @ [row],
                  next_meeting_id := next_meeting_id db + 1\<rparr>))"

text \<open>One request handled with nothing else running in between.\<close>

definition create_booking ::
  "tzlib \<Rightarrow> database \<Rightarrow> booking_request \<Rightarrow> meeting reply \<times> database" where
  "create_booking tz db req =
     (case booking_plan tz db req of
        Inl e \<Rightarrow> (Inl e, db)
      | Inr v \<Rightarrow>
          if booking_conflict db v then (Inl Conflict, db)
          else let (row, db') = booking_insert db v in (Inr row, db'))"

subsection \<open>Two requests in flight\<close>

text \<open>
  Every \<open>await db.query(...)\<close> hands control back to the event loop, and each query
  runs on its own pooled connection with no transaction around the handler. A request
  in flight is therefore at one of these points, and a schedule says which of two
  requests runs its next segment.
\<close>

datatype booking_task =
  Received booking_request
| Planned booking_vars
| Checked booking_vars
| Answered "meeting reply"

fun booking_step :: "tzlib \<Rightarrow> database \<Rightarrow> booking_task \<Rightarrow> booking_task \<times> database" where
  "booking_step tz db (Received req) =
     (case booking_plan tz db req of
        Inl e \<Rightarrow> (Answered (Inl e), db)
      | Inr v \<Rightarrow> (Planned v, db))"
| "booking_step tz db (Planned v) =
     (if booking_conflict db v then (Answered (Inl Conflict), db) else (Checked v, db))"
| "booking_step tz db (Checked v) =
     (let (row, db') = booking_insert db v in (Answered (Inr row), db'))"
| "booking_step tz db (Answered r) = (Answered r, db)"

fun run_schedule ::
  "tzlib \<Rightarrow> bool list \<Rightarrow> database \<times> booking_task \<times> booking_task
     \<Rightarrow> database \<times> booking_task \<times> booking_task" where
  "run_schedule tz [] s = s"
| "run_schedule tz (second # rest) (db, a, b) =
     (if second
      then let (b', db') = booking_step tz db b in run_schedule tz rest (db', a, b')
      else let (a', db') = booking_step tz db a in run_schedule tz rest (db', a', b))"

section \<open>routes/meetings.js: PATCH /api/meetings/:id/cancel\<close>

definition meeting_by_id :: "database \<Rightarrow> int \<Rightarrow> meeting option" where
  "meeting_by_id db i = find (\<lambda>m. m_id m = i) (meetings db)"

text \<open>\<open>UPDATE meetings SET status = "cancelled" WHERE id = ?\<close>\<close>

definition set_cancelled :: "database \<Rightarrow> int \<Rightarrow> database" where
  "set_cancelled db i =
     db\<lparr>meetings := map (\<lambda>m. if m_id m = i then m\<lparr>status := Cancelled\<rparr> else m) (meetings db)\<rparr>"

definition cancel_meeting :: "database \<Rightarrow> int \<Rightarrow> meeting option reply \<times> database" where
  "cancel_meeting db i =
     (case meeting_by_id db i of
        None \<Rightarrow> (Inl NotFound, db)
      | Some meeting \<Rightarrow>
          if status meeting = Cancelled then (Inl BadRequest, db)
          else let db' = set_cancelled db i in (Inr (meeting_by_id db' i), db'))"

section \<open>routes/availability.js: POST /api/availability\<close>

text \<open>
  A field of a JSON row: absent, null, or a value. For the two time fields \<open>Null\<close> also
  stands for the empty string, which \<open>!x\<close> treats like null.
\<close>

datatype 'a field = Undefined | Null | Value 'a

record availability_input =
  dayOfWeek :: "int field"
  in_startTime :: "int field"
  in_endTime :: "int field"
  in_timezone :: "string option"

record save_request =
  eventTypeId :: "int option"
  availability_in :: "availability_input list option"

definition falsy :: "'a field \<Rightarrow> bool" where
  "falsy f = (case f of Value _ \<Rightarrow> False | _ \<Rightarrow> True)"

text \<open>\<open>DELETE FROM availability WHERE event_type_id = ?\<close>\<close>

definition delete_availability :: "database \<Rightarrow> int \<Rightarrow> database" where
  "delete_availability db etid =
     db\<lparr>availability := filter (\<lambda>a. av_event_type_id a \<noteq> etid) (availability db)\<rparr>"

text \<open>
  The INSERT of one rule. The table's UNIQUE KEY
  (event_type_id, day_of_week, start_time, end_time) makes it throw on a second row
  with the same key.
\<close>

definition same_key :: "availability_row \<Rightarrow> availability_row \<Rightarrow> bool" where
  "same_key a b \<longleftrightarrow>
     av_event_type_id a = av_event_type_id b \<and> day_of_week a = day_of_week b
     \<and> start_time a = start_time b \<and> end_time a = end_time b"

text \<open>
  The columns of the availability table: \<open>day_of_week TINYINT\<close> holds -128 to 127,
  a \<open>TIME\<close> holds up to 838:59:59 either side of zero, \<open>timezone VARCHAR(50)\<close>
  holds 50 characters. In strict SQL mode, the server's default, a value that does not
  fit makes the INSERT throw.
\<close>

definition fits_columns :: "availability_row \<Rightarrow> bool" where
  "fits_columns r \<longleftrightarrow>
     - 128 \<le> day_of_week r \<and> day_of_week r \<le> 127
     \<and> - 3020399 \<le> start_time r \<and> start_time r \<le> 3020399
     \<and> - 3020399 \<le> end_time r \<and> end_time r \<le> 3020399
     \<and> length (timezone r) \<le> 50"

definition insert_availability :: "database \<Rightarrow> availability_row \<Rightarrow> failure + database" where
  "insert_availability db r =
     (if \<not> fits_columns r \<or> list_ex (same_key r) (availability db) then Inl ServerError
      else Inr (db\<lparr>availability := availability db @ [r]\<rparr>))"

text \<open>
  The \<open>for\<close> loop of the handler on the transaction's view of the tables. A \<open>throw\<close>
  (the row check, a null day for the NOT NULL column, a value that does not fit, a
  duplicate key) leaves the loop
  with \<open>Inl\<close>.
\<close>

fun insert_rows :: "int \<Rightarrow> availability_input list \<Rightarrow> database \<Rightarrow> failure + database" where
  "insert_rows etid [] db = Inr db"
| "insert_rows etid (avail # rest) db =
     (if dayOfWeek avail = Undefined \<or> falsy (in_startTime avail) \<or> falsy (in_endTime avail)
      then Inl ServerError
      else case (dayOfWeek avail, in_startTime avail, in_endTime avail) of
        (Value d, Value s, Value e) \<Rightarrow>
          (case insert_availability db
                  \<lparr>av_event_type_id = etid, day_of_week = d, start_time = s, end_time = e,
                   timezone = (if missing (in_timezone avail) then ''UTC''
                               else the (in_timezone avail))\<rparr> of
             Inl err \<Rightarrow> Inl err
           | Inr db' \<Rightarrow> insert_rows etid rest db')
      | _ \<Rightarrow> Inl ServerError)"

text \<open>\<open>SELECT * FROM availability WHERE event_type_id = ? ORDER BY day_of_week, start_time\<close>\<close>

definition availability_of :: "database \<Rightarrow> int \<Rightarrow> availability_row list" where
  "availability_of db etid = filter (\<lambda>a. av_event_type_id a = etid) (availability db)"

definition availability_ordered :: "database \<Rightarrow> int \<Rightarrow> availability_row list" where
  "availability_ordered db etid =
     sort_key (\<lambda>a. (day_of_week a, start_time a)) (availability_of db etid)"

text \<open>
  The handler: the delete and the inserts run inside one transaction. On a throw the
  transaction is rolled back, so the tables stay as they were before it began, and the
  outer \<open>catch\<close> answers 500; otherwise it is committed.
\<close>

definition save_availability ::
  "database \<Rightarrow> save_request \<Rightarrow> availability_row list reply \<times> database" where
  "save_availability db req =
     (case (eventTypeId req, availability_in req) of
        (Some etid, Some rows) \<Rightarrow>
          if etid = 0 then (Inl BadRequest, db)
          else if find (\<lambda>e. et_id e = etid) (event_types db) = None then (Inl NotFound, db)
          else (case insert_rows etid rows (delete_availability db etid) of
                  Inl err \<Rightarrow> (Inl ServerError, db)
                | Inr committed \<Rightarrow> (Inr (availability_ordered committed etid), committed))
      | _ \<Rightarrow> (Inl BadRequest, db))"

section \<open>routes/booking.js: GET /api/booking/slots/:eventSlug\<close>

record slot =
  slot_start :: int
  slot_end :: int
  slot_timezone :: zone

record time_range =
  tr_start_time :: int
  tr_end_time :: int
  tr_timezone :: zone

definition range_of_row :: "availability_row \<Rightarrow> time_range" where
  "range_of_row a =
     \<lparr>tr_start_time = start_time a, tr_end_time = end_time a, tr_timezone = timezone a\<rparr>"

text \<open>The civil datetime written \<open>`${date} ${time}`\<close>.\<close>

definition civil_at :: "int \<Rightarrow> int \<Rightarrow> civil" where
  "civil_at date tod = date * day_ms + tod * 1000"

text \<open>The \<open>some\<close> callback: the slot overlaps the booking.\<close>

definition overlaps :: "moment \<Rightarrow> moment \<Rightarrow> meeting \<Rightarrow> bool" where
  "overlaps slotStartUTC slotEndUTC booking \<longleftrightarrow>
     mt slotStartUTC < m_end_time booking \<and> mt slotEndUTC > m_start_time booking"

text \<open>
  The body of the \<open>while\<close> loop for the candidate starting at \<open>currentSlot\<close>: the
  slot list after the conditional \<open>push\<close>.
\<close>

definition push_slot ::
  "tzlib \<Rightarrow> instant \<Rightarrow> meeting list \<Rightarrow> zone \<Rightarrow> int \<Rightarrow> moment \<Rightarrow> slot list \<Rightarrow> slot list" where
  "push_slot tz now existingBookings viewer duration currentSlot slots =
     (let slotStart = currentSlot;
          slotEnd = add_minutes currentSlot duration;
          slotStartUTC = utc slotStart;
          slotEndUTC = utc slotEnd;
          hasConflict = list_ex (overlaps slotStartUTC slotEndUTC) existingBookings;
          isPast = mt slotStartUTC < now
      in if \<not> hasConflict \<and> \<not> isPast
         then slots @ [\<lparr>slot_start = format_moment tz slotStart,
                        slot_end = format_moment tz slotEnd,
                        slot_timezone = viewer\<rparr>]
         else slots)"

text \<open>
  The \<open>while\<close> loop. With a duration that is not positive it never leaves a range
  that admits one slot; \<open>None\<close> is the handler that never answers.
\<close>

partial_function (option) slot_loop ::
  "tzlib \<Rightarrow> instant \<Rightarrow> meeting list \<Rightarrow> zone \<Rightarrow> int \<Rightarrow> moment \<Rightarrow> moment \<Rightarrow> slot list
     \<Rightarrow> slot list option" where
  "slot_loop tz now existingBookings viewer duration endMoment currentSlot slots =
     (if mt (add_minutes currentSlot duration) \<le> mt endMoment
      then slot_loop tz now existingBookings viewer duration endMoment
             (add_minutes currentSlot duration)
             (push_slot tz now existingBookings viewer duration currentSlot slots)
      else Some slots)"

declare slot_loop.simps [code]

text \<open>The \<open>for\<close> loop over the time ranges.\<close>

fun range_loop ::
  "tzlib \<Rightarrow> instant \<Rightarrow> meeting list \<Rightarrow> zone \<Rightarrow> int \<Rightarrow> int \<Rightarrow> time_range list \<Rightarrow> slot list
     \<Rightarrow> slot list option" where
  "range_loop tz now existingBookings viewer duration date [] slots = Some slots"
| "range_loop tz now existingBookings viewer duration date (avail # rest) slots =
     (let availTimezone = (if tr_timezone avail = [] then ''UTC'' else tr_timezone avail);
          startMoment = moment_tz tz (civil_at date (tr_start_time avail)) availTimezone;
          endMoment = moment_tz tz (civil_at date (tr_end_time avail)) availTimezone
      in case slot_loop tz now existingBookings viewer duration endMoment startMoment slots of
           None \<Rightarrow> None
         | Some slots' \<Rightarrow> range_loop tz now existingBookings viewer duration date rest slots')"

text \<open>\<open>const { date, timezone = 'UTC' } = req.query\<close>: the default of an absent zone.\<close>

definition viewer_zone :: "zone option \<Rightarrow> zone" where
  "viewer_zone timezone_q = (case timezone_q of None \<Rightarrow> ''UTC'' | Some z \<Rightarrow> z)"

text \<open>\<open>moment.tz(date, timezone)\<close>: midnight of the requested date in the viewer's zone.\<close>

definition requestedDate :: "tzlib \<Rightarrow> int \<Rightarrow> zone \<Rightarrow> moment" where
  "requestedDate tz date viewer = moment_tz tz (date * day_ms) viewer"

text \<open>The rules of the event type for the day of week of the requested date.\<close>

definition dayAvailability :: "tzlib \<Rightarrow> database \<Rightarrow> int \<Rightarrow> int \<Rightarrow> zone \<Rightarrow> availability_row list" where
  "dayAvailability tz db etid date viewer =
     filter (\<lambda>avail. day_of_week avail = day tz (requestedDate tz date viewer))
            (availability_of db etid)"

text \<open>
  The bookings query: scheduled meetings of the event type whose start lies between
  \<open>startOfDay\<close> and \<open>endOfDay\<close>, the first and the last millisecond of the
  requested day in the viewer's zone.
\<close>

definition startOfDay :: "tzlib \<Rightarrow> int \<Rightarrow> zone \<Rightarrow> instant" where
  "startOfDay tz date viewer = mt (utc (startOf_day tz (requestedDate tz date viewer)))"

definition endOfDay :: "tzlib \<Rightarrow> int \<Rightarrow> zone \<Rightarrow> instant" where
  "endOfDay tz date viewer = mt (utc (endOf_day tz (requestedDate tz date viewer)))"

definition existingBookings ::
  "tzlib \<Rightarrow> database \<Rightarrow> int \<Rightarrow> int \<Rightarrow> zone \<Rightarrow> meeting list" where
  "existingBookings tz db etid date viewer =
     filter (\<lambda>m. m_event_type_id m = etid \<and> status m = Scheduled
                 \<and> m_start_time m \<ge> startOfDay tz date viewer
                 \<and> m_start_time m < endOfDay tz date viewer)
            (meetings db)"

definition find_override :: "database \<Rightarrow> int \<Rightarrow> int \<Rightarrow> override_row option" where
  "find_override db etid date =
     find (\<lambda>ov. ov_event_type_id ov = etid \<and> override_date ov = date)
          (availability_overrides db)"

text \<open>\<open>override && !override.is_available\<close>\<close>

definition blocked :: "override_row option \<Rightarrow> bool" where
  "blocked override = (case override of Some ov \<Rightarrow> \<not> is_available ov | None \<Rightarrow> False)"

text \<open>
  \<open>override && override.is_available && override.start_time && override.end_time ? [...]
  : dayAvailability\<close>
\<close>

definition timeRanges ::
  "override_row option \<Rightarrow> zone \<Rightarrow> availability_row list \<Rightarrow> time_range list" where
  "timeRanges override viewer dayAvail =
     (case override of
        Some ov \<Rightarrow>
          (case (is_available ov, ov_start_time ov, ov_end_time ov) of
             (True, Some s, Some e) \<Rightarrow>
               [\<lparr>tr_start_time = s, tr_end_time = e, tr_timezone = viewer\<rparr>]
           | _ \<Rightarrow> map range_of_row dayAvail)
      | None \<Rightarrow> map range_of_row dayAvail)"

text \<open>
  \<open>slots.sort((a, b) => moment(a.start).diff(moment(b.start)))\<close>: a stable sort on the
  instant that the printed start denotes on the server's own wall clock.
\<close>

definition sort_slots :: "tzlib \<Rightarrow> zone \<Rightarrow> slot list \<Rightarrow> slot list" where
  "sort_slots tz serverZone slots =
     sort_key (\<lambda>a. parse_in tz serverZone (slot_start a * 1000)) slots"

text \<open>
  The handler. \<open>serverZone\<close> is the zone of the server process, \<open>now\<close> the instant
  \<open>moment.utc()\<close> reads. The result is \<open>None\<close> when a \<open>while\<close> loop never ends.
\<close>

definition get_slots ::
  "tzlib \<Rightarrow> zone \<Rightarrow> instant \<Rightarrow> database \<Rightarrow> string \<Rightarrow> int option \<Rightarrow> zone option
     \<Rightarrow> slot list reply option" where
  "get_slots tz serverZone now db slug date_q timezone_q =
     (case date_q of
        None \<Rightarrow> Some (Inl BadRequest)
      | Some date \<Rightarrow>
     (case event_type_by_slug db slug of
        None \<Rightarrow> Some (Inl NotFound)
      | Some eventType \<Rightarrow>
     (let viewer = viewer_zone timezone_q
      in if availability_of db (et_id eventType) = [] then Some (Inr [])
      else if dayAvailability tz db (et_id eventType) date viewer = [] then Some (Inr [])
      else
        let override = find_override db (et_id eventType) date
        in if blocked override then Some (Inr [])
        else map_option (\<lambda>slots. Inr (sort_slots tz serverZone slots))
               (range_loop tz now (existingBookings tz db (et_id eventType) date viewer)
                  viewer (duration_minutes eventType) date
                  (timeRanges override viewer
                     (dayAvailability tz db (et_id eventType) date viewer))
                  []))))"

section \<open>Closed forms used to state the properties\<close>

text \<open>The row that a complete input row is stored as, \<open>None\<close> for an incomplete one.\<close>

definition provided_row :: "int \<Rightarrow> availability_input \<Rightarrow> availability_row option" where
  "provided_row etid avail =
     (case (dayOfWeek avail, in_startTime avail, in_endTime avail) of
        (Value d, Value s, Value e) \<Rightarrow>
          Some \<lparr>av_event_type_id = etid, day_of_week = d, start_time = s, end_time = e,
                timezone = (if missing (in_timezone avail) then ''UTC''
                            else the (in_timezone avail))\<rparr>
      | _ \<Rightarrow> None)"

definition rule_key :: "availability_row \<Rightarrow> int \<times> int \<times> int \<times> int" where
  "rule_key a = (av_event_type_id a, day_of_week a, start_time a, end_time a)"

text \<open>
  The candidate starts of one range: \<open>startMoment\<close> plus \<open>k\<close> durations, for every
  \<open>k\<close> such that the slot still ends at or before \<open>endMoment\<close>.
\<close>

definition candidates :: "int \<Rightarrow> moment \<Rightarrow> moment \<Rightarrow> moment list" where
  "candidates duration endMoment startMoment =
     map (\<lambda>k. add_minutes startMoment (int k * duration))
         [0 ..< nat ((mt endMoment - mt startMoment) div (duration * 60000))]"

definition slot_at :: "tzlib \<Rightarrow> zone \<Rightarrow> int \<Rightarrow> moment \<Rightarrow> slot" where
  "slot_at tz viewer duration currentSlot =
     \<lparr>slot_start = format_moment tz currentSlot,
      slot_end = format_moment tz (add_minutes currentSlot duration),
      slot_timezone = viewer\<rparr>"

section \<open>Sample data\<close>

text \<open>Day 19884 is Monday 2024-06-10; 1718010000000 is 09:00 UTC on that day.\<close>

definition monday :: int where
  "monday = 19884"

definition et30 :: event_type where
  "et30 = \<lparr>et_id = 1, et_name = ''30 Minute Meeting'', et_slug = ''30-min'',
           duration_minutes = 30\<rparr>"

definition nine_oclock :: meeting where
  "nine_oclock =
     \<lparr>m_id = 1, m_event_type_id = 1, invitee_name = ''Ada'',
      invitee_email = ''ada@example.org'', m_start_time = 1718010000000,
      m_end_time = 1718011800000, m_timezone = ''UTC'', status = Scheduled\<rparr>"

definition monday_rule :: "int \<Rightarrow> int \<Rightarrow> zone \<Rightarrow> availability_row" where
  "monday_rule s e z =
     \<lparr>av_event_type_id = 1, day_of_week = 1, start_time = s, end_time = e, timezone = z\<rparr>"

definition db_empty :: database where
  "db_empty = \<lparr>event_types = [et30], availability = [], availability_overrides = [],
               meetings = [], next_meeting_id = 1\<rparr>"

definition db_booked :: database where
  "db_booked = db_empty\<lparr>availability := [monday_rule 32400 36000 ''UTC''],
                        meetings := [nine_oclock], next_meeting_id := 2\<rparr>"

definition req_at :: "civil \<Rightarrow> booking_request" where
  "req_at c = \<lparr>eventSlug = Some ''30-min'', inviteeName = Some ''Bob'',
               inviteeEmail = Some ''bob@example.org'', startTime = Some (CivilTime c),
               req_timezone = Some ''UTC''\<rparr>"

definition bad_rule_req :: save_request where
  "bad_rule_req = \<lparr>eventTypeId = Some 1, availability_in =
      Some [\<lparr>dayOfWeek = Value 9, in_startTime = Value 61200, in_endTime = Value 32400,
             in_timezone = None\<rparr>]\<rparr>"

definition half_rule_req :: save_request where
  "half_rule_req = \<lparr>eventTypeId = Some 1, availability_in =
      Some [\<lparr>dayOfWeek = Value 2, in_startTime = Value 32400, in_endTime = Value 61200,
             in_timezone = Some ''Asia/Kolkata''\<rparr>,
            \<lparr>dayOfWeek = Value 3, in_startTime = Value 32400, in_endTime = Null,
             in_timezone = None\<rparr>]\<rparr>"

definition blocked_monday :: override_row where
  "blocked_monday = \<lparr>ov_event_type_id = 1, override_date = monday, is_available = False,
     ov_start_time = None, ov_end_time = None\<rparr>"

definition done_meeting :: meeting where
  "done_meeting = nine_oclock\<lparr>status := Completed\<rparr>"

definition week_req :: save_request where
  "week_req = \<lparr>eventTypeId = Some 1, availability_in =
      Some [\<lparr>dayOfWeek = Value 2, in_startTime = Value 32400, in_endTime = Value 61200,
             in_timezone = Some ''Asia/Kolkata''\<rparr>,
            \<lparr>dayOfWeek = Value 3, in_startTime = Value 32400, in_endTime = Value 43200,
             in_timezone = None\<rparr>]\<rparr>"

definition week_rows :: "availability_row list" where
  "week_rows = [\<lparr>av_event_type_id = 1, day_of_week = 2, start_time = 32400, end_time = 61200,
                 timezone = ''Asia/Kolkata''\<rparr>,
                \<lparr>av_event_type_id = 1, day_of_week = 3, start_time = 32400, end_time = 43200,
                 timezone = ''UTC''\<rparr>]"

definition nine_utc :: moment where
  "nine_utc = \<lparr>mt = 1718010000000, mz = ''UTC''\<rparr>"

definition ten_utc :: moment where
  "ten_utc = \<lparr>mt = 1718013600000, mz = ''UTC''\<rparr>"

definition open_monday :: override_row where
  "open_monday = \<lparr>ov_event_type_id = 1, override_date = monday, is_available = True,
     ov_start_time = Some 46800, ov_end_time = Some 50400\<rparr>"

definition tuesday_rule :: availability_row where
  "tuesday_rule = \<lparr>av_event_type_id = 1, day_of_week = 2, start_time = 32400,
     end_time = 61200, timezone = ''UTC''\<rparr>"

definition db_override :: database where
  "db_override = db_empty\<lparr>availability := [monday_rule 32400 61200 ''UTC''],
                           availability_overrides := [open_monday]\<rparr>"

definition late_meeting :: meeting where
  "late_meeting =
     \<lparr>m_id = 1, m_event_type_id = 1, invitee_name = ''Ada'',
      invitee_email = ''ada@example.org'', m_start_time = 1717976700000,
      m_end_time = 1717978500000, m_timezone = ''UTC'', status = Scheduled\<rparr>"

definition early_meeting :: meeting where
  "early_meeting =
     \<lparr>m_id = 2, m_event_type_id = 1, invitee_name = ''Eve'',
      invitee_email = ''eve@example.org'', m_start_time = 1717979400000,
      m_end_time = 1717981200000, m_timezone = ''UTC'', status = Scheduled\<rparr>"

definition db_late :: database where
  "db_late = db_empty\<lparr>availability := [monday_rule 0 3600 ''UTC''],
                       meetings := [late_meeting, early_meeting], next_meeting_id := 3\<rparr>"

definition db_kolkata :: database where
  "db_kolkata = db_empty\<lparr>availability := [monday_rule 32400 36000 ''Asia/Kolkata'']\<rparr>"

definition twice_row :: availability_input where
  "twice_row = \<lparr>dayOfWeek = Value 2, in_startTime = Value 32400, in_endTime = Value 61200,
                 in_timezone = Some ''UTC''\<rparr>"

definition twice_req :: save_request where
  "twice_req = \<lparr>eventTypeId = Some 1, availability_in = Some [twice_row, twice_row]\<rparr>"

definition day200_req :: save_request where
  "day200_req = \<lparr>eventTypeId = Some 1, availability_in =
      Some [\<lparr>dayOfWeek = Value 200, in_startTime = Value 32400, in_endTime = Value 61200,
             in_timezone = None\<rparr>]\<rparr>"

definition odd_req :: save_request where
  "odd_req = \<lparr>eventTypeId = Some 1, availability_in =
      Some [\<lparr>dayOfWeek = Value 7, in_startTime = Value 64800, in_endTime = Value 64800,
             in_timezone = None\<rparr>,
            \<lparr>dayOfWeek = Value (- 1), in_startTime = Value 61200, in_endTime = Value 32400,
             in_timezone = Some ''Asia/Kolkata''\<rparr>]\<rparr>"

definition odd_rows :: "availability_row list" where
  "odd_rows = [\<lparr>av_event_type_id = 1, day_of_week = 7, start_time = 64800, end_time = 64800,
                timezone = ''UTC''\<rparr>,
               \<lparr>av_event_type_id = 1, day_of_week = - 1, start_time = 61200, end_time = 32400,
                timezone = ''Asia/Kolkata''\<rparr>]"


section \<open>Booking\<close>








subsection \<open>Two bookings at once\<close>

text \<open>A schedule that lets one request run all its segments is the sequential handler.\<close>

lemma run_alone:
  "run_schedule tz [False, False, False] (db, Received req, b) =
     (snd (create_booking tz db req), Answered (fst (create_booking tz db req)), b)"
  by (auto simp: create_booking_def Let_def split: sum.splits prod.splits)

text \<open>
  C2. Two requests for the same slot of the same event type, on tables without any
  meeting: when both run their conflict query before either runs its insert, both are
  answered with a created meeting and the table holds two scheduled meetings with the
  same interval. Nothing in the handler or the schema keeps the conflict query and
  the insert together.
\<close>

theorem booking_race_double_books:
  "run_schedule fixed_tz [False, True, False, True, False, True]
     (db_empty, Received (req_at 1718010000000), Received (req_at 1718010000000)) =
   (db_empty\<lparr>meetings := [nine_oclock\<lparr>invitee_name := ''Bob'', invitee_email := ''bob@example.org''\<rparr>,
                           nine_oclock\<lparr>m_id := 2, invitee_name := ''Bob'',
                                        invitee_email := ''bob@example.org''\<rparr>],
             next_meeting_id := 3\<rparr>,
    Answered (Inr (nine_oclock\<lparr>invitee_name := ''Bob'', invitee_email := ''bob@example.org''\<rparr>)),
    Answered (Inr (nine_oclock\<lparr>m_id := 2, invitee_name := ''Bob'',
                                invitee_email := ''bob@example.org''\<rparr>)))"
  by code_simp

section \<open>Cancellation\<close>

lemma find_set_cancelled:
  "find (\<lambda>m. m_id m = i) ms = Some m \<Longrightarrow>
   find (\<lambda>m. m_id m = i) (map (\<lambda>m. if m_id m = i then m\<lparr>status := Cancelled\<rparr> else m) ms)
     = Some (m\<lparr>status := Cancelled\<rparr>)"
  by (induction ms) (auto split: if_splits)

text \<open>
  C8, as the handler does it. Cancelling an absent meeting is answered 404 and
  cancelling a cancelled one 400, both with the tables untouched; a meeting in any
  other status (scheduled or completed) gets status cancelled, every other row and
  field staying as it was.
\<close>

theorem cancel_meeting_transitions:
  "(meeting_by_id db i = None \<longrightarrow> cancel_meeting db i = (Inl NotFound, db))
   \<and> (\<forall>m. meeting_by_id db i = Some m \<and> status m = Cancelled \<longrightarrow>
          cancel_meeting db i = (Inl BadRequest, db))
   \<and> (\<forall>m. meeting_by_id db i = Some m \<and> status m \<noteq> Cancelled \<longrightarrow>
          cancel_meeting db i =
            (Inr (Some (m\<lparr>status := Cancelled\<rparr>)),
             db\<lparr>meetings := map (\<lambda>x. if m_id x = i then x\<lparr>status := Cancelled\<rparr> else x)
                                 (meetings db)\<rparr>))"
  using find_set_cancelled[of i "meetings db"]
  by (auto simp: cancel_meeting_def set_cancelled_def meeting_by_id_def Let_def)

theorem cancel_meeting_transitions_witness:
  "cancel_meeting db_booked 7 = (Inl NotFound, db_booked)
   \<and> cancel_meeting db_booked 1 =
        (Inr (Some (nine_oclock\<lparr>status := Cancelled\<rparr>)),
         db_booked\<lparr>meetings := [nine_oclock\<lparr>status := Cancelled\<rparr>]\<rparr>)
   \<and> cancel_meeting (db_booked\<lparr>meetings := [nine_oclock\<lparr>status := Cancelled\<rparr>]\<rparr>) 1 =
        (Inl BadRequest, db_booked\<lparr>meetings := [nine_oclock\<lparr>status := Cancelled\<rparr>]\<rparr>)"
  using cancel_meeting_transitions [of db_booked 7]
    cancel_meeting_transitions [of db_booked 1]
    cancel_meeting_transitions [of "db_booked\<lparr>meetings := [nine_oclock\<lparr>status := Cancelled\<rparr>]\<rparr>" 1]
  by (simp add: meeting_by_id_def db_booked_def nine_oclock_def)

theorem cancel_completed_counterexample:
  "status done_meeting = Completed
   \<and> cancel_meeting (db_booked\<lparr>meetings := [done_meeting]\<rparr>) 1 =
       (Inr (Some (done_meeting\<lparr>status := Cancelled\<rparr>)),
        db_booked\<lparr>meetings := [done_meeting\<lparr>status := Cancelled\<rparr>]\<rparr>)"
  by (simp add: cancel_meeting_def meeting_by_id_def set_cancelled_def done_meeting_def
      nine_oclock_def Let_def)

section \<open>Availability save\<close>

lemma same_key_iff: "same_key a b \<longleftrightarrow> rule_key a = rule_key b"
  by (auto simp: same_key_def rule_key_def)

lemma insert_availability_Inr:
  "insert_availability db r = Inr db' \<longleftrightarrow>
     fits_columns r \<and> rule_key r \<notin> set (map rule_key (availability db))
     \<and> db' = db\<lparr>availability := availability db @ [r]\<rparr>"
  by (auto simp: insert_availability_def list_ex_iff same_key_iff)

lemma insert_rows_step:
  "insert_rows etid (a # rows) db = Inr db' \<longleftrightarrow>
     (\<exists>r db1. provided_row etid a = Some r \<and> insert_availability db r = Inr db1
        \<and> insert_rows etid rows db1 = Inr db')"
  by (auto simp: provided_row_def falsy_def split: field.splits sum.splits)

lemma provided_row_Some:
  "provided_row etid a = Some r \<Longrightarrow>
     \<not> (dayOfWeek a = Undefined \<or> falsy (in_startTime a) \<or> falsy (in_endTime a))"
  by (auto simp: provided_row_def falsy_def split: field.splits)

lemma insert_rows_Inr:
  "insert_rows etid rows db = Inr db' \<longleftrightarrow>
     (\<exists>rs. map (provided_row etid) rows = map Some rs
        \<and> (\<forall>r\<in>set rs. fits_columns r)
        \<and> distinct (map rule_key rs)
        \<and> set (map rule_key rs) \<inter> set (map rule_key (availability db)) = {}
        \<and> db' = db\<lparr>availability := availability db @ rs\<rparr>)"
proof (induction rows arbitrary: db)
  case Nil
  then show ?case by auto
next
  case (Cons a rows)
  show ?case
  proof
    assume "insert_rows etid (a # rows) db = Inr db'"
    then obtain r db1 where r: "provided_row etid a = Some r"
      and i: "insert_availability db r = Inr db1"
      and rest: "insert_rows etid rows db1 = Inr db'"
      unfolding insert_rows_step by blast
    from i have k: "rule_key r \<notin> set (map rule_key (availability db))"
      and fit: "fits_columns r"
      and db1: "db1 = db\<lparr>availability := availability db @ [r]\<rparr>"
      unfolding insert_availability_Inr by simp_all
    from rest obtain rs where rs: "map (provided_row etid) rows = map Some rs"
      "\<forall>r\<in>set rs. fits_columns r"
      "distinct (map rule_key rs)"
      "set (map rule_key rs) \<inter> set (map rule_key (availability db1)) = {}"
      "db' = db1\<lparr>availability := availability db1 @ rs\<rparr>"
      unfolding Cons.IH by blast
    have "map (provided_row etid) (a # rows) = map Some (r # rs)"
      using r rs(1) by simp
    moreover have "\<forall>x\<in>set (r # rs). fits_columns x"
      using fit rs(2) by simp
    moreover have "distinct (map rule_key (r # rs))"
      using rs(3,4) db1 by auto
    moreover have "set (map rule_key (r # rs)) \<inter> set (map rule_key (availability db)) = {}"
      using rs(4) k db1 by auto
    moreover have "db' = db\<lparr>availability := availability db @ (r # rs)\<rparr>"
      using rs(5) db1 by simp
    ultimately show "\<exists>rs. map (provided_row etid) (a # rows) = map Some rs
        \<and> (\<forall>r\<in>set rs. fits_columns r)
        \<and> distinct (map rule_key rs)
        \<and> set (map rule_key rs) \<inter> set (map rule_key (availability db)) = {}
        \<and> db' = db\<lparr>availability := availability db @ rs\<rparr>"
      by blast
  next
    assume "\<exists>rs. map (provided_row etid) (a # rows) = map Some rs
        \<and> (\<forall>r\<in>set rs. fits_columns r)
        \<and> distinct (map rule_key rs)
        \<and> set (map rule_key rs) \<inter> set (map rule_key (availability db)) = {}
        \<and> db' = db\<lparr>availability := availability db @ rs\<rparr>"
    then obtain rs0 where rs0: "map (provided_row etid) (a # rows) = map Some rs0"
      "\<forall>r\<in>set rs0. fits_columns r"
      "distinct (map rule_key rs0)"
      "set (map rule_key rs0) \<inter> set (map rule_key (availability db)) = {}"
      "db' = db\<lparr>availability := availability db @ rs0\<rparr>"
      by blast
    from rs0(1) obtain r rs where c: "rs0 = r # rs" "provided_row etid a = Some r"
      "map (provided_row etid) rows = map Some rs"
      by (cases rs0) auto
    let ?db1 = "db\<lparr>availability := availability db @ [r]\<rparr>"
    have i: "insert_availability db r = Inr ?db1"
      unfolding insert_availability_Inr using rs0(2,4) c(1) by auto
    have "insert_rows etid rows ?db1 = Inr db'"
      unfolding Cons.IH using rs0(2,3,4,5) c(1,3) by (intro exI[of _ rs]) auto
    with i c(2) show "insert_rows etid (a # rows) db = Inr db'"
      unfolding insert_rows_step by blast
  qed
qed

lemma provided_row_etid: "provided_row etid a = Some r \<Longrightarrow> av_event_type_id r = etid"
  by (auto simp: provided_row_def split: field.splits)

lemma provided_rows_etid:
  "map (provided_row etid) rows = map Some rs \<Longrightarrow> \<forall>r\<in>set rs. av_event_type_id r = etid"
proof (induction rows arbitrary: rs)
  case Nil
  then show ?case by simp
next
  case (Cons a rows)
  then show ?case by (cases rs) (auto dest: provided_row_etid)
qed

lemma provided_rows_complete:
  "map (provided_row etid) rows = map Some rs \<Longrightarrow>
     \<not> (\<exists>r\<in>set rows. dayOfWeek r = Undefined \<or> falsy (in_startTime r) \<or> falsy (in_endTime r))"
proof (induction rows arbitrary: rs)
  case Nil
  then show ?case by simp
next
  case (Cons a rows)
  then show ?case by (cases rs) (auto dest: provided_row_Some)
qed

lemma availability_of_replaced:
  assumes "\<forall>r\<in>set rs. av_event_type_id r = etid"
  shows "availability_of
           (db\<lparr>availability := filter (\<lambda>a. av_event_type_id a \<noteq> etid) (availability db) @ rs\<rparr>)
           etid = rs"
  using assms by (auto simp: availability_of_def filter_id_conv filter_empty_conv)

lemma save_availability_unfold:
  assumes "eventTypeId req = Some etid" "etid \<noteq> 0" "availability_in req = Some rows"
    and "find (\<lambda>e. et_id e = etid) (event_types db) = Some et"
  shows "save_availability db req =
     (case insert_rows etid rows (delete_availability db etid) of
        Inl err \<Rightarrow> (Inl ServerError, db)
      | Inr committed \<Rightarrow> (Inr (availability_ordered committed etid), committed))"
  using assms by (simp add: save_availability_def)

lemma fresh_after_delete:
  assumes "\<forall>r\<in>set rs. av_event_type_id r = etid"
  shows "set (map rule_key rs) \<inter> set (map rule_key (availability (delete_availability db etid))) = {}"
  using assms by (auto simp: delete_availability_def rule_key_def)

lemma sample_event_found: "find (\<lambda>e. et_id e = 1) (event_types db_booked) = Some et30"
  by (simp add: db_booked_def db_empty_def et30_def)

lemma save_availability_stores:
  assumes "eventTypeId req = Some etid" "etid \<noteq> 0" "availability_in req = Some rows"
    and "find (\<lambda>e. et_id e = etid) (event_types db) = Some et"
    and "map (provided_row etid) rows = map Some rs"
    and "\<forall>r\<in>set rs. fits_columns r" "distinct (map rule_key rs)"
  shows "save_availability db req =
     (Inr (availability_ordered
             (db\<lparr>availability :=
                   filter (\<lambda>a. av_event_type_id a \<noteq> etid) (availability db) @ rs\<rparr>) etid),
      db\<lparr>availability := filter (\<lambda>a. av_event_type_id a \<noteq> etid) (availability db) @ rs\<rparr>)"
proof -
  let ?db' = "delete_availability db etid
                \<lparr>availability := availability (delete_availability db etid) @ rs\<rparr>"
  have "insert_rows etid rows (delete_availability db etid) = Inr ?db'"
    unfolding insert_rows_Inr
    using assms(5-7) fresh_after_delete[OF provided_rows_etid[OF assms(5)], of db] by blast
  then have "save_availability db req = (Inr (availability_ordered ?db' etid), ?db')"
    unfolding save_availability_unfold[OF assms(1-4)] by simp
  then show ?thesis by (simp add: delete_availability_def)
qed

lemma save_availability_rejects:
  assumes "eventTypeId req = Some etid" "etid \<noteq> 0" "availability_in req = Some rows"
    and "find (\<lambda>e. et_id e = etid) (event_types db) = Some et"
    and "\<not> (\<exists>rs. map (provided_row etid) rows = map Some rs
              \<and> (\<forall>r\<in>set rs. fits_columns r) \<and> distinct (map rule_key rs))"
  shows "save_availability db req = (Inl ServerError, db)"
proof -
  have "insert_rows etid rows (delete_availability db etid) \<noteq> Inr db'" for db'
    unfolding insert_rows_Inr using assms(5) by blast
  then obtain e where "insert_rows etid rows (delete_availability db etid) = Inl e"
    by (cases "insert_rows etid rows (delete_availability db etid)") auto
  then show ?thesis
    unfolding save_availability_unfold[OF assms(1-4)] by simp
qed

lemma provided_rows_member:
  "map (provided_row etid) rows = map Some rs \<Longrightarrow> a \<in> set rows \<Longrightarrow>
     \<exists>r\<in>set rs. provided_row etid a = Some r"
proof (induction rows arbitrary: rs)
  case Nil
  then show ?case by simp
next
  case (Cons x rows)
  then show ?case by (cases rs) auto
qed

lemma storable_iff:
  assumes "map (provided_row etid) rows = map Some rs"
  shows "(\<forall>r\<in>set rs. fits_columns r) \<and> distinct (map rule_key rs) \<longleftrightarrow>
         (\<forall>r\<in>set rs. - 128 \<le> day_of_week r \<and> day_of_week r \<le> 127
                \<and> - 3020399 \<le> start_time r \<and> start_time r \<le> 3020399
                \<and> - 3020399 \<le> end_time r \<and> end_time r \<le> 3020399
                \<and> length (timezone r) \<le> 50)
         \<and> distinct (map (\<lambda>r. (day_of_week r, start_time r, end_time r)) rs)"
proof -
  have "map rule_key rs = map (\<lambda>r. (etid, day_of_week r, start_time r, end_time r)) rs"
    using provided_rows_etid[OF assms] by (simp add: rule_key_def)
  also have "\<dots> = map (Pair etid) (map (\<lambda>r. (day_of_week r, start_time r, end_time r)) rs)"
    by simp
  finally have "distinct (map rule_key rs) \<longleftrightarrow>
                distinct (map (\<lambda>r. (day_of_week r, start_time r, end_time r)) rs)"
    by (simp add: distinct_map inj_on_def del: map_map)
  then show ?thesis by (simp add: fits_columns_def)
qed

text \<open>
  C6, as the handler does it. A save for an existing event type has two outcomes and
  nothing in between. When every provided row carries dayOfWeek, startTime and endTime
  with values that fit the columns, and no two provided rows agree on day, start and
  end, the rules of the event type become exactly the stored forms of the provided
  rows, in order, and nothing else changes. In every other case (a row without one of
  the three fields, a value that does not fit, a repeated key) the save is answered 500
  and the tables are exactly as before.
\<close>

theorem save_availability_atomic:
  assumes "eventTypeId req = Some etid" "etid \<noteq> 0" "availability_in req = Some rows"
    and "find (\<lambda>e. et_id e = etid) (event_types db) = Some et"
  shows "(\<forall>rs. map (provided_row etid) rows = map Some rs
              \<and> (\<forall>r\<in>set rs. - 128 \<le> day_of_week r \<and> day_of_week r \<le> 127
                     \<and> - 3020399 \<le> start_time r \<and> start_time r \<le> 3020399
                     \<and> - 3020399 \<le> end_time r \<and> end_time r \<le> 3020399
                     \<and> length (timezone r) \<le> 50)
              \<and> distinct (map (\<lambda>r. (day_of_week r, start_time r, end_time r)) rs)
            \<longrightarrow> snd (save_availability db req) =
                  db\<lparr>availability :=
                       filter (\<lambda>a. av_event_type_id a \<noteq> etid) (availability db) @ rs\<rparr>
               \<and> filter (\<lambda>a. av_event_type_id a = etid)
                    (availability (snd (save_availability db req))) = rs
               \<and> fst (save_availability db req) =
                   Inr (availability_ordered (snd (save_availability db req)) etid))
       \<and> (\<not> (\<exists>rs. map (provided_row etid) rows = map Some rs
                  \<and> (\<forall>r\<in>set rs. - 128 \<le> day_of_week r \<and> day_of_week r \<le> 127
                         \<and> - 3020399 \<le> start_time r \<and> start_time r \<le> 3020399
                         \<and> - 3020399 \<le> end_time r \<and> end_time r \<le> 3020399
                         \<and> length (timezone r) \<le> 50)
                  \<and> distinct (map (\<lambda>r. (day_of_week r, start_time r, end_time r)) rs))
            \<longrightarrow> save_availability db req = (Inl ServerError, db))
       \<and> ((\<exists>r\<in>set rows. dayOfWeek r = Undefined \<or> falsy (in_startTime r) \<or> falsy (in_endTime r))
            \<longrightarrow> save_availability db req = (Inl ServerError, db))"
proof (intro conjI allI impI)
  fix rs
  assume "map (provided_row etid) rows = map Some rs
              \<and> (\<forall>r\<in>set rs. - 128 \<le> day_of_week r \<and> day_of_week r \<le> 127
                     \<and> - 3020399 \<le> start_time r \<and> start_time r \<le> 3020399
                     \<and> - 3020399 \<le> end_time r \<and> end_time r \<le> 3020399
                     \<and> length (timezone r) \<le> 50)
              \<and> distinct (map (\<lambda>r. (day_of_week r, start_time r, end_time r)) rs)"
  then have a: "map (provided_row etid) rows = map Some rs"
    "(\<forall>r\<in>set rs. fits_columns r) \<and> distinct (map rule_key rs)"
    using storable_iff[of etid rows rs] by blast+
  then have s: "save_availability db req =
     (Inr (availability_ordered
             (db\<lparr>availability :=
                   filter (\<lambda>a. av_event_type_id a \<noteq> etid) (availability db) @ rs\<rparr>) etid),
      db\<lparr>availability := filter (\<lambda>a. av_event_type_id a \<noteq> etid) (availability db) @ rs\<rparr>)"
    using save_availability_stores[OF assms] by blast
  show "snd (save_availability db req) =
          db\<lparr>availability := filter (\<lambda>a. av_event_type_id a \<noteq> etid) (availability db) @ rs\<rparr>"
    unfolding s by simp
  show "filter (\<lambda>a. av_event_type_id a = etid)
          (availability (snd (save_availability db req))) = rs"
    unfolding s snd_conv
    using availability_of_replaced[OF provided_rows_etid[OF a(1)], of db]
    by (simp add: availability_of_def)
  show "fst (save_availability db req) =
          Inr (availability_ordered (snd (save_availability db req)) etid)"
    unfolding s by simp
next
  assume "\<not> (\<exists>rs. map (provided_row etid) rows = map Some rs
                  \<and> (\<forall>r\<in>set rs. - 128 \<le> day_of_week r \<and> day_of_week r \<le> 127
                         \<and> - 3020399 \<le> start_time r \<and> start_time r \<le> 3020399
                         \<and> - 3020399 \<le> end_time r \<and> end_time r \<le> 3020399
                         \<and> length (timezone r) \<le> 50)
                  \<and> distinct (map (\<lambda>r. (day_of_week r, start_time r, end_time r)) rs))"
  then have "\<not> (\<exists>rs. map (provided_row etid) rows = map Some rs
                  \<and> (\<forall>r\<in>set rs. fits_columns r) \<and> distinct (map rule_key rs))"
    using storable_iff[of etid rows] by blast
  then show "save_availability db req = (Inl ServerError, db)"
    by (rule save_availability_rejects[OF assms])
next
  assume "\<exists>r\<in>set rows. dayOfWeek r = Undefined \<or> falsy (in_startTime r) \<or> falsy (in_endTime r)"
  then have "\<not> (\<exists>rs. map (provided_row etid) rows = map Some rs
                  \<and> (\<forall>r\<in>set rs. fits_columns r) \<and> distinct (map rule_key rs))"
    using provided_rows_complete by blast
  then show "save_availability db req = (Inl ServerError, db)"
    by (rule save_availability_rejects[OF assms])
qed

theorem save_availability_atomic_witness:
  "save_availability db_booked half_rule_req = (Inl ServerError, db_booked)
   \<and> snd (save_availability db_booked week_req) = db_booked\<lparr>availability := week_rows\<rparr>
   \<and> filter (\<lambda>a. av_event_type_id a = 1)
        (availability (snd (save_availability db_booked week_req))) = week_rows"
proof -
  have h: "eventTypeId half_rule_req = Some 1" "(1::int) \<noteq> 0"
    "availability_in half_rule_req = Some (the (availability_in half_rule_req))"
    by (simp_all add: half_rule_req_def)
  have w: "eventTypeId week_req = Some 1" "(1::int) \<noteq> 0"
    "availability_in week_req = Some (the (availability_in week_req))"
    by (simp_all add: week_req_def)
  have p: "map (provided_row 1) (the (availability_in week_req)) = map Some week_rows
           \<and> (\<forall>r\<in>set week_rows. - 128 \<le> day_of_week r \<and> day_of_week r \<le> 127
                     \<and> - 3020399 \<le> start_time r \<and> start_time r \<le> 3020399
                     \<and> - 3020399 \<le> end_time r \<and> end_time r \<le> 3020399
                     \<and> length (timezone r) \<le> 50)
           \<and> distinct (map (\<lambda>r. (day_of_week r, start_time r, end_time r)) week_rows)"
    by (simp add: week_req_def week_rows_def provided_row_def missing_def)
  have bad: "\<exists>r\<in>set (the (availability_in half_rule_req)).
               dayOfWeek r = Undefined \<or> falsy (in_startTime r) \<or> falsy (in_endTime r)"
    by (simp add: half_rule_req_def falsy_def)
  from save_availability_atomic [OF h sample_event_found] bad
  have a: "save_availability db_booked half_rule_req = (Inl ServerError, db_booked)"
    by blast
  have none: "filter (\<lambda>a. av_event_type_id a \<noteq> 1) (availability db_booked) = []"
    by (simp add: db_booked_def monday_rule_def)
  from save_availability_atomic [OF w sample_event_found] p
  have b: "snd (save_availability db_booked week_req) =
          db_booked\<lparr>availability :=
             filter (\<lambda>a. av_event_type_id a \<noteq> 1) (availability db_booked) @ week_rows\<rparr>"
    and c: "filter (\<lambda>a. av_event_type_id a = 1)
              (availability (snd (save_availability db_booked week_req))) = week_rows"
    by blast+
  from a b [unfolded none append_Nil] c show ?thesis by blast
qed

theorem duplicate_rows_counterexample:
  "\<not> (dayOfWeek twice_row = Undefined \<or> falsy (in_startTime twice_row)
        \<or> falsy (in_endTime twice_row))
   \<and> availability_in twice_req = Some [twice_row, twice_row]
   \<and> save_availability db_booked twice_req = (Inl ServerError, db_booked)
   \<and> availability db_booked = [monday_rule 32400 36000 ''UTC'']"
  by (simp add: save_availability_def twice_req_def twice_row_def db_booked_def db_empty_def
      et30_def delete_availability_def falsy_def insert_availability_def missing_def
      same_key_def monday_rule_def fits_columns_def)

text \<open>
  C7, as the handler does it. A row without dayOfWeek, startTime or endTime makes the
  save fail (500) with nothing written, and so does a day number that the TINYINT
  column cannot hold. The data-model constraints are not checked: when every row
  carries the three fields with values that fit the columns and no two rows agree on
  day, start and end, the save succeeds and stores every row as given, whether or not
  the day lies in 0..6 and whichever of start and end is the larger.
\<close>

theorem save_availability_checks_presence_only:
  assumes "eventTypeId req = Some etid" "etid \<noteq> 0" "availability_in req = Some rows"
    and "find (\<lambda>e. et_id e = etid) (event_types db) = Some et"
  shows "((\<exists>r\<in>set rows. dayOfWeek r = Undefined \<or> falsy (in_startTime r) \<or> falsy (in_endTime r))
            \<longrightarrow> save_availability db req = (Inl ServerError, db))
       \<and> ((\<exists>r\<in>set rows. \<exists>d. dayOfWeek r = Value d \<and> (d < - 128 \<or> 127 < d))
            \<longrightarrow> save_availability db req = (Inl ServerError, db))
       \<and> (\<forall>rs. map (provided_row etid) rows = map Some rs
              \<and> (\<forall>r\<in>set rs. - 128 \<le> day_of_week r \<and> day_of_week r \<le> 127
                     \<and> - 3020399 \<le> start_time r \<and> start_time r \<le> 3020399
                     \<and> - 3020399 \<le> end_time r \<and> end_time r \<le> 3020399
                     \<and> length (timezone r) \<le> 50)
              \<and> distinct (map (\<lambda>r. (day_of_week r, start_time r, end_time r)) rs)
            \<longrightarrow> snd (save_availability db req) =
                  db\<lparr>availability :=
                       filter (\<lambda>a. av_event_type_id a \<noteq> etid) (availability db) @ rs\<rparr>
               \<and> fst (save_availability db req) =
                  Inr (availability_ordered (snd (save_availability db req)) etid))"
proof (intro conjI allI impI)
  assume "\<exists>r\<in>set rows. dayOfWeek r = Undefined \<or> falsy (in_startTime r) \<or> falsy (in_endTime r)"
  then have "\<not> (\<exists>rs. map (provided_row etid) rows = map Some rs
                  \<and> (\<forall>r\<in>set rs. fits_columns r) \<and> distinct (map rule_key rs))"
    using provided_rows_complete by blast
  then show "save_availability db req = (Inl ServerError, db)"
    by (rule save_availability_rejects[OF assms])
next
  assume "\<exists>r\<in>set rows. \<exists>d. dayOfWeek r = Value d \<and> (d < - 128 \<or> 127 < d)"
  then obtain a d where a: "a \<in> set rows" "dayOfWeek a = Value d" "d < - 128 \<or> 127 < d"
    by blast
  have "\<not> (\<forall>r\<in>set rs. fits_columns r)" if m: "map (provided_row etid) rows = map Some rs" for rs
  proof -
    from provided_rows_member[OF m a(1)] obtain r where r: "r \<in> set rs"
      "provided_row etid a = Some r" by blast
    from r(2) a(2) have "day_of_week r = d"
      by (auto simp: provided_row_def split: field.splits)
    with a(3) have "\<not> fits_columns r" by (auto simp: fits_columns_def)
    with r(1) show ?thesis by blast
  qed
  then have "\<not> (\<exists>rs. map (provided_row etid) rows = map Some rs
                  \<and> (\<forall>r\<in>set rs. fits_columns r) \<and> distinct (map rule_key rs))"
    by blast
  then show "save_availability db req = (Inl ServerError, db)"
    by (rule save_availability_rejects[OF assms])
next
  fix rs
  assume a: "map (provided_row etid) rows = map Some rs
              \<and> (\<forall>r\<in>set rs. - 128 \<le> day_of_week r \<and> day_of_week r \<le> 127
                     \<and> - 3020399 \<le> start_time r \<and> start_time r \<le> 3020399
                     \<and> - 3020399 \<le> end_time r \<and> end_time r \<le> 3020399
                     \<and> length (timezone r) \<le> 50)
              \<and> distinct (map (\<lambda>r. (day_of_week r, start_time r, end_time r)) rs)"
  then have fit: "\<forall>r\<in>set rs. fits_columns r"
    by (simp add: fits_columns_def)
  have "map rule_key rs = map (\<lambda>r. (etid, day_of_week r, start_time r, end_time r)) rs"
    using provided_rows_etid[of etid rows rs] a by (simp add: rule_key_def)
  also have "\<dots> = map (Pair etid) (map (\<lambda>r. (day_of_week r, start_time r, end_time r)) rs)"
    by simp
  finally have "distinct (map rule_key rs)"
    using a by (simp add: distinct_map inj_on_def del: map_map)
  with a fit have s: "save_availability db req =
     (Inr (availability_ordered
             (db\<lparr>availability :=
                   filter (\<lambda>a. av_event_type_id a \<noteq> etid) (availability db) @ rs\<rparr>) etid),
      db\<lparr>availability := filter (\<lambda>a. av_event_type_id a \<noteq> etid) (availability db) @ rs\<rparr>)"
    using save_availability_stores[OF assms] by blast
  show "snd (save_availability db req) =
          db\<lparr>availability := filter (\<lambda>a. av_event_type_id a \<noteq> etid) (availability db) @ rs\<rparr>"
    unfolding s by simp
  show "fst (save_availability db req) =
          Inr (availability_ordered (snd (save_availability db req)) etid)"
    unfolding s by simp
qed

theorem save_availability_checks_presence_only_witness:
  "save_availability db_booked half_rule_req = (Inl ServerError, db_booked)
   \<and> save_availability db_booked day200_req = (Inl ServerError, db_booked)
   \<and> snd (save_availability db_booked odd_req) = db_booked\<lparr>availability := odd_rows\<rparr>"
proof -
  have h: "eventTypeId half_rule_req = Some 1" "(1::int) \<noteq> 0"
    "availability_in half_rule_req = Some (the (availability_in half_rule_req))"
    by (simp_all add: half_rule_req_def)
  have t: "eventTypeId day200_req = Some 1" "(1::int) \<noteq> 0"
    "availability_in day200_req = Some (the (availability_in day200_req))"
    by (simp_all add: day200_req_def)
  have w: "eventTypeId odd_req = Some 1" "(1::int) \<noteq> 0"
    "availability_in odd_req = Some (the (availability_in odd_req))"
    by (simp_all add: odd_req_def)
  have bad: "\<exists>r\<in>set (the (availability_in half_rule_req)).
               dayOfWeek r = Undefined \<or> falsy (in_startTime r) \<or> falsy (in_endTime r)"
    by (simp add: half_rule_req_def falsy_def)
  have big: "\<exists>r\<in>set (the (availability_in day200_req)).
               \<exists>d. dayOfWeek r = Value d \<and> (d < - 128 \<or> 127 < d)"
    by (simp add: day200_req_def)
  have p: "map (provided_row 1) (the (availability_in odd_req)) = map Some odd_rows
           \<and> (\<forall>r\<in>set odd_rows. - 128 \<le> day_of_week r \<and> day_of_week r \<le> 127
                     \<and> - 3020399 \<le> start_time r \<and> start_time r \<le> 3020399
                     \<and> - 3020399 \<le> end_time r \<and> end_time r \<le> 3020399
                     \<and> length (timezone r) \<le> 50)
           \<and> distinct (map (\<lambda>r. (day_of_week r, start_time r, end_time r)) odd_rows)"
    by (simp add: odd_req_def odd_rows_def provided_row_def missing_def)
  from save_availability_checks_presence_only [OF h sample_event_found] bad
  have a: "save_availability db_booked half_rule_req = (Inl ServerError, db_booked)"
    by blast
  from save_availability_checks_presence_only [OF t sample_event_found] big
  have b: "save_availability db_booked day200_req = (Inl ServerError, db_booked)"
    by blast
  have none: "filter (\<lambda>a. av_event_type_id a \<noteq> 1) (availability db_booked) = []"
    by (simp add: db_booked_def monday_rule_def)
  from save_availability_checks_presence_only [OF w sample_event_found] p
  have c: "snd (save_availability db_booked odd_req) =
          db_booked\<lparr>availability :=
             filter (\<lambda>a. av_event_type_id a \<noteq> 1) (availability db_booked) @ odd_rows\<rparr>"
    by blast
  from a b c [unfolded none append_Nil] show ?thesis by blast
qed

theorem unchecked_rule_counterexample:
  "save_availability db_empty bad_rule_req =
     (Inr [\<lparr>av_event_type_id = 1, day_of_week = 9, start_time = 61200, end_time = 32400,
            timezone = ''UTC''\<rparr>],
      db_empty\<lparr>availability :=
        [\<lparr>av_event_type_id = 1, day_of_week = 9, start_time = 61200, end_time = 32400,
            timezone = ''UTC''\<rparr>]\<rparr>)"
  by (simp add: save_availability_def bad_rule_req_def db_empty_def et30_def
      delete_availability_def falsy_def insert_availability_def missing_def
      availability_ordered_def availability_of_def fits_columns_def)

section \<open>Slot generation\<close>

lemma div_shift: "0 < (D::int) \<Longrightarrow> (a - D) div D = a div D - 1"
  using div_add_self2[of D "a - D"] by simp

lemma div_pos_iff: "0 < (D::int) \<Longrightarrow> 1 \<le> a div D \<longleftrightarrow> D \<le> a"
  using pos_imp_zdiv_pos_iff[of D a] by linarith

lemma push_slot_eq:
  "push_slot tz now bookings viewer d cur slots =
     (if (\<exists>b\<in>set bookings. mt cur < m_end_time b \<and> m_start_time b < mt cur + d * 60000)
         \<or> mt cur < now
      then slots else slots @ [slot_at tz viewer d cur])"
  by (auto simp: push_slot_def Let_def list_ex_iff overlaps_def utc_def add_minutes_def slot_at_def)

lemma candidates_Nil:
  assumes "0 < d" "\<not> mt (add_minutes cur d) \<le> mt E"
  shows "candidates d E cur = []"
proof -
  have "\<not> 1 \<le> (mt E - mt cur) div (d * 60000)"
    using assms by (subst div_pos_iff) (simp_all add: add_minutes_def)
  then show ?thesis by (simp add: candidates_def)
qed

lemma candidates_Cons:
  assumes "0 < d" "mt (add_minutes cur d) \<le> mt E"
  shows "candidates d E cur = cur # candidates d E (add_minutes cur d)"
proof -
  let ?n = "nat ((mt E - mt cur) div (d * 60000))"
  have D: "0 < d * 60000" using assms(1) by simp
  have one: "1 \<le> (mt E - mt cur) div (d * 60000)"
    using assms by (subst div_pos_iff) (simp_all add: add_minutes_def)
  have "(mt E - mt (add_minutes cur d)) div (d * 60000) = (mt E - mt cur) div (d * 60000) - 1"
    using div_shift[OF D, of "mt E - mt cur"] by (simp add: add_minutes_def algebra_simps)
  then have n: "nat ((mt E - mt (add_minutes cur d)) div (d * 60000)) = ?n - 1"
    by (simp add: nat_diff_distrib')
  have S: "?n = Suc (?n - 1)" using one by simp
  have k: "add_minutes (add_minutes cur d) (int k * d) = add_minutes cur (int (Suc k) * d)" for k
    by (simp add: add_minutes_def algebra_simps)
  have h0: "add_minutes cur (int 0 * d) = cur" by (simp add: add_minutes_def)
  have "candidates d E cur =
          map (\<lambda>k. add_minutes cur (int k * d)) (0 # map Suc [0 ..< ?n - 1])"
    unfolding candidates_def by (subst S) (simp only: upt_conv_Cons map_Suc_upt zero_less_Suc)
  also have "\<dots> = cur # map (\<lambda>k. add_minutes (add_minutes cur d) (int k * d)) [0 ..< ?n - 1]"
    unfolding k by (simp only: list.map h0 map_map comp_def)
  also have "\<dots> = cur # candidates d E (add_minutes cur d)"
    unfolding candidates_def n ..
  finally show ?thesis .
qed

lemma slot_loop_closed:
  assumes "0 < d"
  shows "n = nat ((mt E - mt cur) div (d * 60000)) \<Longrightarrow>
     slot_loop tz now bookings viewer d E cur slots =
       Some (foldl (\<lambda>acc c. push_slot tz now bookings viewer d c acc) slots (candidates d E cur))"
proof (induction n arbitrary: cur slots)
  case 0
  have "\<not> 1 \<le> (mt E - mt cur) div (d * 60000)" using 0 by simp
  then have c: "\<not> mt (add_minutes cur d) \<le> mt E"
    using assms by (subst (asm) div_pos_iff) (simp_all add: add_minutes_def)
  show ?case
    by (subst slot_loop.simps) (simp add: c candidates_Nil[OF assms c])
next
  case (Suc n)
  have D: "0 < d * 60000" using assms by simp
  from Suc.prems have "1 \<le> (mt E - mt cur) div (d * 60000)" by linarith
  then have c: "mt (add_minutes cur d) \<le> mt E"
    using assms by (subst (asm) div_pos_iff) (simp_all add: add_minutes_def)
  have "(mt E - mt (add_minutes cur d)) div (d * 60000) = (mt E - mt cur) div (d * 60000) - 1"
    using div_shift[OF D, of "mt E - mt cur"] by (simp add: add_minutes_def algebra_simps)
  then have n: "n = nat ((mt E - mt (add_minutes cur d)) div (d * 60000))"
    using Suc.prems by linarith
  show ?case
    by (subst slot_loop.simps) (simp add: c Suc.IH[OF n] candidates_Cons[OF assms c])
qed

lemma foldl_push_slot:
  "foldl (\<lambda>acc c. push_slot tz now bookings viewer d c acc) slots cs =
     slots @ map (slot_at tz viewer d)
       (filter (\<lambda>c. \<not> ((\<exists>b\<in>set bookings. mt c < m_end_time b \<and> m_start_time b < mt c + d * 60000)
                        \<or> mt c < now)) cs)"
  by (induction cs arbitrary: slots) (simp_all add: push_slot_eq)

lemma slot_loop_filter:
  assumes "0 < d"
  shows "slot_loop tz now bookings viewer d E cur slots =
     Some (slots @ map (slot_at tz viewer d)
       (filter (\<lambda>c. \<not> ((\<exists>b\<in>set bookings. mt c < m_end_time b \<and> m_start_time b < mt c + d * 60000)
                        \<or> mt c < now)) (candidates d E cur)))"
  using slot_loop_closed[OF assms refl] by (simp add: foldl_push_slot)

lemma candidates_within:
  assumes "0 < d" "c \<in> set (candidates d E cur)"
  shows "mt cur \<le> mt c \<and> mt c + d * 60000 \<le> mt E \<and> mz c = mz cur
         \<and> (\<exists>k. mt c = mt cur + int k * (d * 60000))"
proof -
  let ?D = "d * 60000"
  have D: "0 < ?D" using assms(1) by simp
  from assms(2) obtain k where k: "k < nat ((mt E - mt cur) div ?D)"
    and c: "c = add_minutes cur (int k * d)"
    by (auto simp: candidates_def)
  from k have "int k + 1 \<le> (mt E - mt cur) div ?D" by linarith
  then have "(int k + 1) * ?D \<le> (mt E - mt cur) div ?D * ?D"
    using D by (intro mult_right_mono) simp_all
  also have "\<dots> \<le> mt E - mt cur"
    using div_mult_mod_eq[of "mt E - mt cur" ?D] pos_mod_sign[OF D, of "mt E - mt cur"]
    by linarith
  finally have "mt cur + int k * ?D + ?D \<le> mt E" by (simp add: algebra_simps)
  moreover have "0 \<le> int k * ?D" using D by simp
  ultimately show ?thesis unfolding c
    by (auto simp: add_minutes_def algebra_simps)
qed

text \<open>
  C4. The loop body drops the candidate starting at \<open>c\<close> exactly when some loaded
  booking satisfies \<open>slotStart < bookingEnd \<and> bookingStart < slotEnd\<close> or the candidate
  starts before \<open>now\<close>; a candidate that is not past and that every booking merely
  touches (or misses) is kept. For a positive duration the \<open>while\<close> loop ends, and
  what it appends are the slots of exactly those candidates of the range that pass this
  test.
\<close>

theorem slot_conflict_filter:
  "push_slot tz now bookings viewer d c slots =
     (if (\<exists>b\<in>set bookings. mt c < m_end_time b \<and> m_start_time b < mt c + d * 60000)
         \<or> mt c < now
      then slots else slots @ [slot_at tz viewer d c])
   \<and> ((\<forall>b\<in>set bookings. m_end_time b \<le> mt c \<or> mt c + d * 60000 \<le> m_start_time b)
        \<and> now \<le> mt c
      \<longrightarrow> push_slot tz now bookings viewer d c slots = slots @ [slot_at tz viewer d c])
   \<and> (0 < d \<longrightarrow>
        slot_loop tz now bookings viewer d E c slots =
          Some (slots @ map (slot_at tz viewer d)
            (filter (\<lambda>k. \<not> ((\<exists>b\<in>set bookings. mt k < m_end_time b
                                    \<and> m_start_time b < mt k + d * 60000)
                             \<or> mt k < now))
                    (candidates d E c))))"
proof (intro conjI impI)
  show "push_slot tz now bookings viewer d c slots =
     (if (\<exists>b\<in>set bookings. mt c < m_end_time b \<and> m_start_time b < mt c + d * 60000)
         \<or> mt c < now
      then slots else slots @ [slot_at tz viewer d c])"
    by (rule push_slot_eq)
next
  assume "(\<forall>b\<in>set bookings. m_end_time b \<le> mt c \<or> mt c + d * 60000 \<le> m_start_time b)
        \<and> now \<le> mt c"
  then show "push_slot tz now bookings viewer d c slots = slots @ [slot_at tz viewer d c]"
    unfolding push_slot_eq by force
next
  assume "0 < d"
  then show "slot_loop tz now bookings viewer d E c slots =
          Some (slots @ map (slot_at tz viewer d)
            (filter (\<lambda>k. \<not> ((\<exists>b\<in>set bookings. mt k < m_end_time b
                                    \<and> m_start_time b < mt k + d * 60000)
                             \<or> mt k < now))
                    (candidates d E c)))"
    by (rule slot_loop_filter)
qed

lemma sample_candidates:
  "candidates 30 ten_utc nine_utc = [nine_utc, \<lparr>mt = 1718011800000, mz = ''UTC''\<rparr>]"
  by (simp add: candidates_def nine_utc_def ten_utc_def add_minutes_def upt_rec)

theorem slot_conflict_filter_witness:
  "push_slot fixed_tz 0 [nine_oclock] ''UTC'' 30 nine_utc [] = []
   \<and> push_slot fixed_tz 0 [nine_oclock] ''UTC'' 30 (add_minutes nine_utc 30) [] =
       [\<lparr>slot_start = 1718011800, slot_end = 1718013600, slot_timezone = ''UTC''\<rparr>]
   \<and> slot_loop fixed_tz 0 [nine_oclock] ''UTC'' 30 ten_utc nine_utc [] =
       Some [\<lparr>slot_start = 1718011800, slot_end = 1718013600, slot_timezone = ''UTC''\<rparr>]"
proof -
  note t = slot_conflict_filter [of fixed_tz 0 "[nine_oclock]" "''UTC''" 30 _ "[]" ten_utc]
  from t [of nine_utc]
  have a: "push_slot fixed_tz 0 [nine_oclock] ''UTC'' 30 nine_utc [] = []"
    by (simp add: nine_oclock_def nine_utc_def)
  from t [of "add_minutes nine_utc 30"]
  have b: "push_slot fixed_tz 0 [nine_oclock] ''UTC'' 30 (add_minutes nine_utc 30) [] =
       [\<lparr>slot_start = 1718011800, slot_end = 1718013600, slot_timezone = ''UTC''\<rparr>]"
    by (simp add: nine_oclock_def nine_utc_def add_minutes_def slot_at_def format_moment_def
        fixed_tz_def zone_offset_def)
  from t [of nine_utc]
  have c: "slot_loop fixed_tz 0 [nine_oclock] ''UTC'' 30 ten_utc nine_utc [] =
       Some [\<lparr>slot_start = 1718011800, slot_end = 1718013600, slot_timezone = ''UTC''\<rparr>]"
    unfolding sample_candidates
    by (simp add: nine_oclock_def nine_utc_def add_minutes_def slot_at_def
        format_moment_def fixed_tz_def zone_offset_def)
  from a b c show ?thesis by simp
qed

lemma range_loop_single:
  assumes "0 < d"
  shows "range_loop tz now bookings viewer d date
           [\<lparr>tr_start_time = s, tr_end_time = e, tr_timezone = z\<rparr>] [] =
         Some (map (slot_at tz viewer d)
           (filter (\<lambda>c. \<not> ((\<exists>b\<in>set bookings. mt c < m_end_time b
                                   \<and> m_start_time b < mt c + d * 60000)
                            \<or> mt c < now))
              (candidates d
                 (moment_tz tz (civil_at date e) (if z = [] then ''UTC'' else z))
                 (moment_tz tz (civil_at date s) (if z = [] then ''UTC'' else z)))))"
  by (simp add: Let_def slot_loop_filter[OF assms])

lemma get_slots_blocked:
  assumes "event_type_by_slug db slug = Some et"
    and "find_override db (et_id et) date = Some ov" "\<not> is_available ov"
  shows "get_slots tz sz now db slug (Some date) zq = Some (Inr [])"
  using assms by (simp add: get_slots_def Let_def blocked_def)

lemma get_slots_override:
  assumes "event_type_by_slug db slug = Some et"
    and "find_override db (et_id et) date = Some ov" "is_available ov"
    and "ov_start_time ov = Some s" "ov_end_time ov = Some e"
    and "dayAvailability tz db (et_id et) date (viewer_zone zq) \<noteq> []"
  shows "get_slots tz sz now db slug (Some date) zq =
     map_option (\<lambda>slots. Inr (sort_slots tz sz slots))
       (range_loop tz now (existingBookings tz db (et_id et) date (viewer_zone zq))
          (viewer_zone zq) (duration_minutes et) date
          [\<lparr>tr_start_time = s, tr_end_time = e, tr_timezone = viewer_zone zq\<rparr>] [])"
proof -
  have "availability_of db (et_id et) \<noteq> []"
    using assms(6) by (auto simp: dayAvailability_def)
  then show ?thesis
    using assms by (simp add: get_slots_def Let_def blocked_def timeRanges_def)
qed


text \<open>
  C5, as the handler does it. With an override for the event type and the date: if it
  is not available, the answer is the empty list; if it is available with a start and an
  end time, and the event type has a weekly rule for the date's day of week, then the
  only range run is the override's range read in the viewer's zone: the answer is what
  the loop produces for that single range, whatever the weekly rules are, and for a
  positive duration it consists of the slots of the kept candidates of that range, all
  of which lie between the override's start and end.
\<close>

theorem override_replaces_rules:
  assumes "event_type_by_slug db slug = Some et"
    and "find_override db (et_id et) date = Some ov"
  shows "(\<not> is_available ov \<longrightarrow> get_slots tz sz now db slug (Some date) zq = Some (Inr []))
    \<and> (is_available ov \<and> ov_start_time ov = Some s \<and> ov_end_time ov = Some e
        \<and> dayAvailability tz db (et_id et) date (viewer_zone zq) \<noteq> []
       \<longrightarrow> get_slots tz sz now db slug (Some date) zq =
             map_option (\<lambda>slots. Inr (sort_slots tz sz slots))
               (range_loop tz now (existingBookings tz db (et_id et) date (viewer_zone zq))
                  (viewer_zone zq) (duration_minutes et) date
                  [\<lparr>tr_start_time = s, tr_end_time = e, tr_timezone = viewer_zone zq\<rparr>] [])
         \<and> (0 < duration_minutes et \<longrightarrow>
              (let z = (if viewer_zone zq = [] then ''UTC'' else viewer_zone zq);
                   startMoment = moment_tz tz (civil_at date s) z;
                   endMoment = moment_tz tz (civil_at date e) z;
                   bookings = existingBookings tz db (et_id et) date (viewer_zone zq);
                   kept = filter (\<lambda>c. \<not> ((\<exists>b\<in>set bookings. mt c < m_end_time b
                                     \<and> m_start_time b < mt c + duration_minutes et * 60000)
                                   \<or> mt c < now))
                            (candidates (duration_minutes et) endMoment startMoment)
               in get_slots tz sz now db slug (Some date) zq =
                    Some (Inr (sort_slots tz sz
                      (map (slot_at tz (viewer_zone zq) (duration_minutes et)) kept)))
                \<and> (\<forall>c\<in>set kept. mt startMoment \<le> mt c
                       \<and> mt c + duration_minutes et * 60000 \<le> mt endMoment \<and> mz c = z))))"
proof (intro conjI impI)
  assume "\<not> is_available ov"
  then show "get_slots tz sz now db slug (Some date) zq = Some (Inr [])"
    by (rule get_slots_blocked[OF assms])
next
  assume a: "is_available ov \<and> ov_start_time ov = Some s \<and> ov_end_time ov = Some e
        \<and> dayAvailability tz db (et_id et) date (viewer_zone zq) \<noteq> []"
  then show g: "get_slots tz sz now db slug (Some date) zq =
             map_option (\<lambda>slots. Inr (sort_slots tz sz slots))
               (range_loop tz now (existingBookings tz db (et_id et) date (viewer_zone zq))
                  (viewer_zone zq) (duration_minutes et) date
                  [\<lparr>tr_start_time = s, tr_end_time = e, tr_timezone = viewer_zone zq\<rparr>] [])"
    using get_slots_override[OF assms] by blast
  assume d: "0 < duration_minutes et"
  show "let z = (if viewer_zone zq = [] then ''UTC'' else viewer_zone zq);
            startMoment = moment_tz tz (civil_at date s) z;
            endMoment = moment_tz tz (civil_at date e) z;
            bookings = existingBookings tz db (et_id et) date (viewer_zone zq);
            kept = filter (\<lambda>c. \<not> ((\<exists>b\<in>set bookings. mt c < m_end_time b
                              \<and> m_start_time b < mt c + duration_minutes et * 60000)
                            \<or> mt c < now))
                     (candidates (duration_minutes et) endMoment startMoment)
        in get_slots tz sz now db slug (Some date) zq =
             Some (Inr (sort_slots tz sz
               (map (slot_at tz (viewer_zone zq) (duration_minutes et)) kept)))
         \<and> (\<forall>c\<in>set kept. mt startMoment \<le> mt c
                \<and> mt c + duration_minutes et * 60000 \<le> mt endMoment \<and> mz c = z)"
  proof -
    let ?z = "if viewer_zone zq = [] then ''UTC'' else viewer_zone zq"
    let ?S = "moment_tz tz (civil_at date s) ?z"
    let ?E = "moment_tz tz (civil_at date e) ?z"
    have w: "mt ?S \<le> mt c \<and> mt c + duration_minutes et * 60000 \<le> mt ?E \<and> mz c = ?z"
      if "c \<in> set (candidates (duration_minutes et) ?E ?S)" for c
      using candidates_within[OF d that] by (simp add: moment_tz_def)
    have g2: "get_slots tz sz now db slug (Some date) zq =
             Some (Inr (sort_slots tz sz
               (map (slot_at tz (viewer_zone zq) (duration_minutes et))
                 (filter (\<lambda>c. \<not> ((\<exists>b\<in>set (existingBookings tz db (et_id et) date (viewer_zone zq)).
                                 mt c < m_end_time b
                              \<and> m_start_time b < mt c + duration_minutes et * 60000)
                            \<or> mt c < now))
                     (candidates (duration_minutes et) ?E ?S)))))"
      unfolding g range_loop_single[OF d] by simp
    show ?thesis
      unfolding Let_def using g2 w by simp
  qed
qed

theorem override_replaces_rules_witness:
  "get_slots fixed_tz ''UTC'' 0 db_override ''30-min'' (Some monday) (Some ''UTC'') =
     Some (Inr [\<lparr>slot_start = 1718024400, slot_end = 1718026200, slot_timezone = ''UTC''\<rparr>,
                \<lparr>slot_start = 1718026200, slot_end = 1718028000, slot_timezone = ''UTC''\<rparr>])
   \<and> get_slots fixed_tz ''UTC'' 0 (db_override\<lparr>availability_overrides := [blocked_monday]\<rparr>)
        ''30-min'' (Some monday) (Some ''UTC'') = Some (Inr [])"
proof -
  have e: "event_type_by_slug (db_override\<lparr>availability_overrides := ovs\<rparr>) ''30-min'' = Some et30" for ovs
    by (simp add: event_type_by_slug_def db_override_def db_empty_def et30_def)
  have o: "find_override (db_override\<lparr>availability_overrides := [open_monday]\<rparr>) (et_id et30) monday
             = Some open_monday"
    by (simp add: find_override_def open_monday_def et30_def)
  have b: "find_override (db_override\<lparr>availability_overrides := [blocked_monday]\<rparr>) (et_id et30) monday
             = Some blocked_monday"
    by (simp add: find_override_def blocked_monday_def et30_def)
  have same: "db_override\<lparr>availability_overrides := [open_monday]\<rparr> = db_override"
    by (simp add: db_override_def)
  have day: "dayAvailability fixed_tz db_override (et_id et30) monday (viewer_zone (Some ''UTC'')) \<noteq> []"
    by code_simp
  have r: "range_loop fixed_tz 0
             (existingBookings fixed_tz db_override (et_id et30) monday (viewer_zone (Some ''UTC'')))
             (viewer_zone (Some ''UTC'')) (duration_minutes et30) monday
             [\<lparr>tr_start_time = 46800, tr_end_time = 50400, tr_timezone = viewer_zone (Some ''UTC'')\<rparr>] []
           = Some [\<lparr>slot_start = 1718024400, slot_end = 1718026200, slot_timezone = ''UTC''\<rparr>,
                \<lparr>slot_start = 1718026200, slot_end = 1718028000, slot_timezone = ''UTC''\<rparr>]"
    by code_simp
  have srt: "sort_slots fixed_tz ''UTC''
            [\<lparr>slot_start = 1718024400, slot_end = 1718026200, slot_timezone = ''UTC''\<rparr>,
                \<lparr>slot_start = 1718026200, slot_end = 1718028000, slot_timezone = ''UTC''\<rparr>]
          = [\<lparr>slot_start = 1718024400, slot_end = 1718026200, slot_timezone = ''UTC''\<rparr>,
                \<lparr>slot_start = 1718026200, slot_end = 1718028000, slot_timezone = ''UTC''\<rparr>]"
    by code_simp
  have e0: "event_type_by_slug db_override ''30-min'' = Some et30"
    by (simp add: event_type_by_slug_def db_override_def db_empty_def et30_def)
  have pre: "is_available open_monday \<and> ov_start_time open_monday = Some 46800
        \<and> ov_end_time open_monday = Some 50400
        \<and> dayAvailability fixed_tz db_override (et_id et30) monday (viewer_zone (Some ''UTC'')) \<noteq> []"
    using day by (simp add: open_monday_def)
  note t = override_replaces_rules [OF e0 o [unfolded same], where tz = fixed_tz and s = 46800
      and e = 50400 and zq = "Some ''UTC''" and sz = "''UTC''" and now = 0]
  from t [THEN conjunct2, THEN mp, OF pre, THEN conjunct1]
  have 1: "get_slots fixed_tz ''UTC'' 0 db_override ''30-min'' (Some monday) (Some ''UTC'') =
     Some (Inr [\<lparr>slot_start = 1718024400, slot_end = 1718026200, slot_timezone = ''UTC''\<rparr>,
                \<lparr>slot_start = 1718026200, slot_end = 1718028000, slot_timezone = ''UTC''\<rparr>])"
    unfolding r by (simp add: srt)
  from override_replaces_rules [OF e b, where tz = fixed_tz and zq = "Some ''UTC''"
      and sz = "''UTC''" and now = 0]
  have 2: "get_slots fixed_tz ''UTC'' 0 (db_override\<lparr>availability_overrides := [blocked_monday]\<rparr>)
        ''30-min'' (Some monday) (Some ''UTC'') = Some (Inr [])"
    by (simp add: blocked_monday_def)
  from 1 2 show ?thesis by simp
qed

theorem override_without_rule_counterexample:
  "find_override (db_empty\<lparr>availability := [tuesday_rule],
                           availability_overrides := [open_monday]\<rparr>) 1 monday = Some open_monday
   \<and> is_available open_monday
   \<and> ov_start_time open_monday = Some 46800 \<and> ov_end_time open_monday = Some 50400
   \<and> get_slots fixed_tz ''UTC'' 0
        (db_empty\<lparr>availability := [tuesday_rule], availability_overrides := [open_monday]\<rparr>)
        ''30-min'' (Some monday) (Some ''UTC'') = Some (Inr [])
   \<and> range_loop fixed_tz 0 [] ''UTC'' 30 monday
        [\<lparr>tr_start_time = 46800, tr_end_time = 50400, tr_timezone = ''UTC''\<rparr>] [] =
       Some [\<lparr>slot_start = 1718024400, slot_end = 1718026200, slot_timezone = ''UTC''\<rparr>,
             \<lparr>slot_start = 1718026200, slot_end = 1718028000, slot_timezone = ''UTC''\<rparr>]"
  by code_simp

lemma get_slots_cong_meetings:
  assumes "existingBookings tz (db\<lparr>meetings := ms\<rparr>) etid date (viewer_zone zq) =
           existingBookings tz db etid date (viewer_zone zq)"
    and "event_type_by_slug db slug = Some et" "et_id et = etid"
  shows "get_slots tz sz now (db\<lparr>meetings := ms\<rparr>) slug (Some date) zq =
         get_slots tz sz now db slug (Some date) zq"
proof -
  have e: "event_type_by_slug (db\<lparr>meetings := ms\<rparr>) slug = Some et"
    using assms(2) by (simp add: event_type_by_slug_def)
  have a: "availability_of (db\<lparr>meetings := ms\<rparr>) i = availability_of db i" for i
    by (simp add: availability_of_def)
  have d: "dayAvailability tz (db\<lparr>meetings := ms\<rparr>) i date v = dayAvailability tz db i date v" for i v
    by (simp add: dayAvailability_def a)
  have f: "find_override (db\<lparr>meetings := ms\<rparr>) i date = find_override db i date" for i
    by (simp add: find_override_def)
  show ?thesis
    unfolding get_slots_def e assms(2) using assms(1,3) by (simp add: a d f Let_def)
qed

lemma existingBookings_window:
  "existingBookings tz db etid date v =
     filter (\<lambda>m. m_event_type_id m = etid \<and> status m = Scheduled
        \<and> parse_in tz v (civil_in tz v (parse_in tz v (date * 86400000)) div 86400000 * 86400000)
            \<le> m_start_time m
        \<and> m_start_time m
            < parse_in tz v (civil_in tz v (parse_in tz v (date * 86400000)) div 86400000 * 86400000
                             + 86399999))
       (meetings db)"
  by (simp add: existingBookings_def startOfDay_def endOfDay_def startOf_day_def endOf_day_def
      requestedDate_def moment_tz_def utc_def day_ms_def)

lemma range_loop_closed:
  assumes "0 < d"
  shows "range_loop tz now bookings viewer d date ranges slots =
     Some (slots @ concat (map (\<lambda>r.
       map (slot_at tz viewer d)
         (filter (\<lambda>c. \<not> ((\<exists>b\<in>set bookings. mt c < m_end_time b
                                 \<and> m_start_time b < mt c + d * 60000)
                          \<or> mt c < now))
            (candidates d
               (moment_tz tz (civil_at date (tr_end_time r))
                  (if tr_timezone r = [] then ''UTC'' else tr_timezone r))
               (moment_tz tz (civil_at date (tr_start_time r))
                  (if tr_timezone r = [] then ''UTC'' else tr_timezone r))))) ranges))"
proof (induction ranges arbitrary: slots)
  case Nil
  then show ?case by simp
next
  case (Cons r ranges)
  show ?case
    by (simp add: Let_def slot_loop_filter[OF assms] Cons.IH)
qed

lemma get_slots_closed:
  assumes "event_type_by_slug db slug = Some et"
    and "0 < duration_minutes et"
    and "dayAvailability tz db (et_id et) date (viewer_zone zq) \<noteq> []"
    and "\<not> blocked (find_override db (et_id et) date)"
  shows "get_slots tz sz now db slug (Some date) zq =
     Some (Inr (sort_slots tz sz (concat (map (\<lambda>r.
       map (slot_at tz (viewer_zone zq) (duration_minutes et))
         (filter (\<lambda>c. \<not> ((\<exists>b\<in>set (existingBookings tz db (et_id et) date (viewer_zone zq)).
                                 mt c < m_end_time b
                                 \<and> m_start_time b < mt c + duration_minutes et * 60000)
                          \<or> mt c < now))
            (candidates (duration_minutes et)
               (moment_tz tz (civil_at date (tr_end_time r))
                  (if tr_timezone r = [] then ''UTC'' else tr_timezone r))
               (moment_tz tz (civil_at date (tr_start_time r))
                  (if tr_timezone r = [] then ''UTC'' else tr_timezone r)))))
       (timeRanges (find_override db (et_id et) date) (viewer_zone zq)
          (dayAvailability tz db (et_id et) date (viewer_zone zq)))))))"
proof -
  have "availability_of db (et_id et) \<noteq> []"
    using assms(3) by (auto simp: dayAvailability_def)
  then show ?thesis
    using assms by (simp add: get_slots_def Let_def range_loop_closed[OF assms(2)])
qed

text \<open>
  C10. Let \<open>S\<close> and \<open>E\<close> be the instants the zone database gives for the first and the
  last millisecond of the requested date on the viewer's wall clock, and call a meeting
  loaded when it belongs to the event type, is scheduled and starts at or after \<open>S\<close> and
  before \<open>E\<close>. The answer is the same when every meeting that is not loaded is removed
  from the table; and when the slot loop is reached with a positive duration, a candidate
  of a range is dropped exactly when it overlaps a loaded meeting or is past. So a
  meeting that starts before \<open>S\<close> is not consulted: with a rule for 00:00-01:00, a
  scheduled meeting from 23:45 of the day before to 00:15 and one from 00:30 to 01:00,
  the slot 00:30-01:00 is withheld but the slot 00:00-00:30 is offered although it
  overlaps the first meeting.
\<close>

theorem slots_consult_day_window:
  assumes "event_type_by_slug db slug = Some et"
  shows "(let v = (case zq of None \<Rightarrow> ''UTC'' | Some z \<Rightarrow> z);
              d = duration_minutes et;
              midnight = civil_in tz v (parse_in tz v (date * 86400000)) div 86400000 * 86400000;
              S = parse_in tz v midnight;
              E = parse_in tz v (midnight + 86399999);
              loaded = (\<lambda>m. m_event_type_id m = et_id et \<and> status m = Scheduled
                            \<and> S \<le> m_start_time m \<and> m_start_time m < E)
          in get_slots tz sz now db slug (Some date) zq =
               get_slots tz sz now (db\<lparr>meetings := filter loaded (meetings db)\<rparr>) slug (Some date) zq
           \<and> (0 < d \<and> dayAvailability tz db (et_id et) date v \<noteq> []
                \<and> \<not> blocked (find_override db (et_id et) date)
              \<longrightarrow> get_slots tz sz now db slug (Some date) zq =
                    Some (Inr (sort_slots tz sz (concat (map (\<lambda>r.
                      map (slot_at tz v d)
                        (filter (\<lambda>c. \<not> ((\<exists>b\<in>set (meetings db). loaded b
                                               \<and> mt c < m_end_time b
                                               \<and> m_start_time b < mt c + d * 60000)
                                         \<or> mt c < now))
                           (candidates d
                              (moment_tz tz (civil_at date (tr_end_time r))
                                 (if tr_timezone r = [] then ''UTC'' else tr_timezone r))
                              (moment_tz tz (civil_at date (tr_start_time r))
                                 (if tr_timezone r = [] then ''UTC'' else tr_timezone r)))))
                      (timeRanges (find_override db (et_id et) date) v
                         (dayAvailability tz db (et_id et) date v))))))))
   \<and> get_slots fixed_tz ''UTC'' 0 db_late ''30-min'' (Some monday) (Some ''UTC'') =
       Some (Inr [\<lparr>slot_start = 1717977600, slot_end = 1717979400, slot_timezone = ''UTC''\<rparr>])
   \<and> meetings db_late = [late_meeting, early_meeting]
   \<and> m_event_type_id late_meeting = 1 \<and> status late_meeting = Scheduled
   \<and> m_start_time late_meeting < parse_in fixed_tz ''UTC'' (monday * 86400000)
   \<and> m_start_time late_meeting < 1717979400 * 1000
   \<and> 1717977600 * 1000 < m_end_time late_meeting"
proof -
  let ?v = "case zq of None \<Rightarrow> ''UTC'' | Some z \<Rightarrow> z"
  let ?midnight = "civil_in tz ?v (parse_in tz ?v (date * 86400000)) div 86400000 * 86400000"
  let ?loaded = "\<lambda>m. m_event_type_id m = et_id et \<and> status m = Scheduled
                   \<and> parse_in tz ?v ?midnight \<le> m_start_time m
                   \<and> m_start_time m < parse_in tz ?v (?midnight + 86399999)"
  have v: "viewer_zone zq = ?v" by (simp add: viewer_zone_def)
  have ex: "existingBookings tz db' (et_id et) date ?v = filter ?loaded (meetings db')" for db'
    by (rule existingBookings_window)
  have "existingBookings tz (db\<lparr>meetings := filter ?loaded (meetings db)\<rparr>) (et_id et) date ?v =
        existingBookings tz db (et_id et) date ?v"
    unfolding ex by simp
  then have A: "get_slots tz sz now db slug (Some date) zq =
        get_slots tz sz now (db\<lparr>meetings := filter ?loaded (meetings db)\<rparr>) slug (Some date) zq"
    using get_slots_cong_meetings[OF _ assms refl, of tz "filter ?loaded (meetings db)" date zq]
    unfolding v by simp
  have B: "get_slots tz sz now db slug (Some date) zq =
       Some (Inr (sort_slots tz sz (concat (map (\<lambda>r.
         map (slot_at tz ?v (duration_minutes et))
           (filter (\<lambda>c. \<not> ((\<exists>b\<in>set (meetings db). ?loaded b
                                  \<and> mt c < m_end_time b
                                  \<and> m_start_time b < mt c + duration_minutes et * 60000)
                            \<or> mt c < now))
              (candidates (duration_minutes et)
                 (moment_tz tz (civil_at date (tr_end_time r))
                    (if tr_timezone r = [] then ''UTC'' else tr_timezone r))
                 (moment_tz tz (civil_at date (tr_start_time r))
                    (if tr_timezone r = [] then ''UTC'' else tr_timezone r)))))
         (timeRanges (find_override db (et_id et) date) ?v
            (dayAvailability tz db (et_id et) date ?v))))))"
    if "0 < duration_minutes et \<and> dayAvailability tz db (et_id et) date ?v \<noteq> []
          \<and> \<not> blocked (find_override db (et_id et) date)"
  proof -
    have bex: "(\<exists>b\<in>set (filter ?loaded (meetings db)). P b) \<longleftrightarrow>
               (\<exists>b\<in>set (meetings db). ?loaded b \<and> P b)" for P
      by auto
    show ?thesis
      using get_slots_closed[OF assms, of tz date zq sz now] that
      unfolding v ex bex by blast
  qed
  have C: "get_slots fixed_tz ''UTC'' 0 db_late ''30-min'' (Some monday) (Some ''UTC'') =
       Some (Inr [\<lparr>slot_start = 1717977600, slot_end = 1717979400, slot_timezone = ''UTC''\<rparr>])"
    by code_simp
  have D: "meetings db_late = [late_meeting, early_meeting]"
    by (simp add: db_late_def)
  have F: "m_event_type_id late_meeting = 1 \<and> status late_meeting = Scheduled
   \<and> m_start_time late_meeting < parse_in fixed_tz ''UTC'' (monday * 86400000)
   \<and> m_start_time late_meeting < 1717979400 * 1000
   \<and> 1717977600 * 1000 < m_end_time late_meeting"
    by (simp add: late_meeting_def fixed_tz_def zone_offset_def monday_def)
  from A B C D F show ?thesis
    unfolding Let_def by blast
qed

theorem slots_consult_day_window_witness:
  "get_slots fixed_tz ''UTC'' 0 db_late ''30-min'' (Some monday) (Some ''UTC'') =
     get_slots fixed_tz ''UTC'' 0 (db_late\<lparr>meetings := [early_meeting]\<rparr>) ''30-min''
       (Some monday) (Some ''UTC'')
   \<and> get_slots fixed_tz ''UTC'' 0 db_late ''30-min'' (Some monday) (Some ''UTC'') =
       Some (Inr [\<lparr>slot_start = 1717977600, slot_end = 1717979400, slot_timezone = ''UTC''\<rparr>])
   \<and> get_slots fixed_tz ''UTC'' 0 (db_late\<lparr>meetings := []\<rparr>) ''30-min'' (Some monday)
       (Some ''UTC'') =
       Some (Inr [\<lparr>slot_start = 1717977600, slot_end = 1717979400, slot_timezone = ''UTC''\<rparr>,
                  \<lparr>slot_start = 1717979400, slot_end = 1717981200, slot_timezone = ''UTC''\<rparr>])"
proof -
  have e: "event_type_by_slug (db_late\<lparr>meetings := ms\<rparr>) ''30-min'' = Some et30" for ms
    by (simp add: event_type_by_slug_def db_late_def db_empty_def et30_def)
  have e0: "event_type_by_slug db_late ''30-min'' = Some et30"
    by (simp add: event_type_by_slug_def db_late_def db_empty_def et30_def)
  have pre: "0 < duration_minutes et30
      \<and> dayAvailability fixed_tz (db_late\<lparr>meetings := ms\<rparr>) (et_id et30) monday ''UTC'' \<noteq> []
      \<and> \<not> blocked (find_override (db_late\<lparr>meetings := ms\<rparr>) (et_id et30) monday)" for ms
    by (simp add: et30_def dayAvailability_def availability_of_def db_late_def db_empty_def
        monday_rule_def day_def requestedDate_def moment_tz_def fixed_tz_def zone_offset_def
        monday_def day_ms_def find_override_def blocked_def)
  have same: "db_late\<lparr>meetings := [late_meeting, early_meeting]\<rparr> = db_late"
    by (simp add: db_late_def)
  have keep: "filter (\<lambda>m. m_event_type_id m = et_id et30 \<and> status m = Scheduled
              \<and> parse_in fixed_tz ''UTC''
                   (civil_in fixed_tz ''UTC'' (parse_in fixed_tz ''UTC'' (monday * 86400000))
                      div 86400000 * 86400000) \<le> m_start_time m
              \<and> m_start_time m < parse_in fixed_tz ''UTC''
                   (civil_in fixed_tz ''UTC'' (parse_in fixed_tz ''UTC'' (monday * 86400000))
                      div 86400000 * 86400000 + 86399999))
            (meetings db_late) = [early_meeting]"
    by (simp add: db_late_def late_meeting_def early_meeting_def et30_def fixed_tz_def
        zone_offset_def monday_def)
  note t = slots_consult_day_window [where tz = fixed_tz and zq = "Some ''UTC''"
      and date = monday and sz = "''UTC''" and now = 0, unfolded Let_def option.case]
  from t [OF e0, THEN conjunct1, THEN conjunct1]
  have 1: "get_slots fixed_tz ''UTC'' 0 db_late ''30-min'' (Some monday) (Some ''UTC'') =
     get_slots fixed_tz ''UTC'' 0 (db_late\<lparr>meetings := [early_meeting]\<rparr>) ''30-min''
       (Some monday) (Some ''UTC'')"
    unfolding keep .
  have r1: "sort_slots fixed_tz ''UTC'' (concat (map (\<lambda>r.
                      map (slot_at fixed_tz ''UTC'' (duration_minutes et30))
                        (filter (\<lambda>c. \<not> ((\<exists>b\<in>set (meetings (db_late\<lparr>meetings := [late_meeting, early_meeting]\<rparr>)).
                                (m_event_type_id b = et_id et30 \<and> status b = Scheduled
              \<and> parse_in fixed_tz ''UTC''
                   (civil_in fixed_tz ''UTC'' (parse_in fixed_tz ''UTC'' (monday * 86400000))
                      div 86400000 * 86400000) \<le> m_start_time b
              \<and> m_start_time b < parse_in fixed_tz ''UTC''
                   (civil_in fixed_tz ''UTC'' (parse_in fixed_tz ''UTC'' (monday * 86400000))
                      div 86400000 * 86400000 + 86399999))
                                               \<and> mt c < m_end_time b
                                               \<and> m_start_time b < mt c + duration_minutes et30 * 60000)
                                         \<or> mt c < 0))
                           (candidates (duration_minutes et30)
                              (moment_tz fixed_tz (civil_at monday (tr_end_time r))
                                 (if tr_timezone r = [] then ''UTC'' else tr_timezone r))
                              (moment_tz fixed_tz (civil_at monday (tr_start_time r))
                                 (if tr_timezone r = [] then ''UTC'' else tr_timezone r)))))
                      (timeRanges (find_override (db_late\<lparr>meetings := [late_meeting, early_meeting]\<rparr>) (et_id et30) monday) ''UTC''
                         (dayAvailability fixed_tz (db_late\<lparr>meetings := [late_meeting, early_meeting]\<rparr>) (et_id et30) monday ''UTC''))))
        = [\<lparr>slot_start = 1717977600, slot_end = 1717979400, slot_timezone = ''UTC''\<rparr>]"
    by code_simp
  from t [OF e [of "[late_meeting, early_meeting]"], THEN conjunct1, THEN conjunct2, THEN mp,
      OF pre [of "[late_meeting, early_meeting]"]]
  have 2: "get_slots fixed_tz ''UTC'' 0 db_late ''30-min'' (Some monday) (Some ''UTC'') =
       Some (Inr [\<lparr>slot_start = 1717977600, slot_end = 1717979400, slot_timezone = ''UTC''\<rparr>])"
    unfolding r1 unfolding same .
  have r3: "sort_slots fixed_tz ''UTC'' (concat (map (\<lambda>r.
                      map (slot_at fixed_tz ''UTC'' (duration_minutes et30))
                        (filter (\<lambda>c. \<not> ((\<exists>b\<in>set (meetings (db_late\<lparr>meetings := []\<rparr>)).
                                (m_event_type_id b = et_id et30 \<and> status b = Scheduled
              \<and> parse_in fixed_tz ''UTC''
                   (civil_in fixed_tz ''UTC'' (parse_in fixed_tz ''UTC'' (monday * 86400000))
                      div 86400000 * 86400000) \<le> m_start_time b
              \<and> m_start_time b < parse_in fixed_tz ''UTC''
                   (civil_in fixed_tz ''UTC'' (parse_in fixed_tz ''UTC'' (monday * 86400000))
                      div 86400000 * 86400000 + 86399999))
                                               \<and> mt c < m_end_time b
                                               \<and> m_start_time b < mt c + duration_minutes et30 * 60000)
                                         \<or> mt c < 0))
                           (candidates (duration_minutes et30)
                              (moment_tz fixed_tz (civil_at monday (tr_end_time r))
                                 (if tr_timezone r = [] then ''UTC'' else tr_timezone r))
                              (moment_tz fixed_tz (civil_at monday (tr_start_time r))
                                 (if tr_timezone r = [] then ''UTC'' else tr_timezone r)))))
                      (timeRanges (find_override (db_late\<lparr>meetings := []\<rparr>) (et_id et30) monday) ''UTC''
                         (dayAvailability fixed_tz (db_late\<lparr>meetings := []\<rparr>) (et_id et30) monday ''UTC''))))
        = [\<lparr>slot_start = 1717977600, slot_end = 1717979400, slot_timezone = ''UTC''\<rparr>,
           \<lparr>slot_start = 1717979400, slot_end = 1717981200, slot_timezone = ''UTC''\<rparr>]"
    by code_simp
  from t [OF e [of "[]"], THEN conjunct1, THEN conjunct2, THEN mp, OF pre [of "[]"]]
  have 3: "get_slots fixed_tz ''UTC'' 0 (db_late\<lparr>meetings := []\<rparr>) ''30-min'' (Some monday)
       (Some ''UTC'') =
       Some (Inr [\<lparr>slot_start = 1717977600, slot_end = 1717979400, slot_timezone = ''UTC''\<rparr>,
                  \<lparr>slot_start = 1717979400, slot_end = 1717981200, slot_timezone = ''UTC''\<rparr>])"
    unfolding r3 .
  from 1 2 3 show ?thesis by blast
qed

text \<open>
  C3. With a Monday rule 09:00-10:00 stored in Asia/Kolkata and a viewer in UTC, the
  two slots are printed as 09:00 and 09:30 and carry the zone UTC, while the candidates
  they come from are the instants 03:30 and 04:00 UTC: the printed values are wall-clock
  readings in the rule's zone, not in the viewer's.
\<close>

theorem slots_printed_in_rule_zone:
  "get_slots fixed_tz ''UTC'' 0 db_kolkata ''30-min'' (Some monday) (Some ''UTC'') =
     Some (Inr [\<lparr>slot_start = 1718010000, slot_end = 1718011800, slot_timezone = ''UTC''\<rparr>,
                \<lparr>slot_start = 1718011800, slot_end = 1718013600, slot_timezone = ''UTC''\<rparr>])
   \<and> candidates 30 (moment_tz fixed_tz (civil_at monday 36000) ''Asia/Kolkata'')
                    (moment_tz fixed_tz (civil_at monday 32400) ''Asia/Kolkata'') =
       [\<lparr>mt = 1717990200000, mz = ''Asia/Kolkata''\<rparr>, \<lparr>mt = 1717992000000, mz = ''Asia/Kolkata''\<rparr>]
   \<and> civil_in fixed_tz ''UTC'' 1717990200000 div 1000 = 1717990200
   \<and> civil_in fixed_tz ''Asia/Kolkata'' 1717990200000 div 1000 = 1718010000"
  by code_simp

end
